theory Spec2Isabelle
  imports Main "HOL-Library.Word"
begin

section \<open>DHTSetup::setup of aria2 (src/DHTSetup.cc)\<close>

text \<open>
  The development embeds the one function of the file, \<open>DHTSetup::setup(e, family)\<close>.
  The function builds a graph of shared objects, publishes it in two process-wide
  registries and returns a vector of commands; an exception of class
  \<open>RecoverableException\<close> raised after the guard is caught and rolled back, and an
  exception of any other class leaves the function.
  Shared objects (\<open>std::shared_ptr\<close>) live in an explicit store of references, the
  registries and the engine are fields of the process state, and an exception is the
  \<open>Inl\<close> branch of a result paired with the state reached when it was raised.
\<close>

subsection \<open>Scalars, preferences, exceptions\<close>

type_synonym ref = nat
type_synonym uint16_t = "16 word"

text \<open>The address families come from the system header; the Linux values are used.
  Only their being different matters.\<close>

definition AF_INET :: int where
  "AF_INET = 2"

definition AF_INET6 :: int where
  "AF_INET6 = 10"

datatype Pref =
    PREF_DHT_FILE_PATH
  | PREF_DHT_FILE_PATH6
  | PREF_DHT_LISTEN_ADDR
  | PREF_DHT_LISTEN_ADDR6
  | PREF_DHT_LISTEN_PORT
  | PREF_DHT_MESSAGE_TIMEOUT
  | PREF_DHT_ENTRY_POINT_HOST
  | PREF_DHT_ENTRY_POINT_HOST6
  | PREF_DHT_ENTRY_POINT_PORT
  | PREF_DHT_ENTRY_POINT_PORT6

text \<open>The exceptions of class \<open>RecoverableException\<close>, the class the two \<open>catch\<close>
  clauses of the function name (lines 103 and 289): the class itself and \<open>DlAbortEx\<close>,
  which \<open>DL_ABORT_EX\<close> constructs (line 134).\<close>

datatype exn = RecoverableException string | DlAbortEx string

text \<open>What a \<open>throw\<close> throws: an exception of that class, or an exception of another
  class (\<open>std::bad_alloc\<close> of an allocation, for one), which no \<open>catch\<close> clause of the
  function matches.\<close>

datatype thrown = Recoverable exn | OtherException string

text \<open>The classes of the commands pushed on \<open>tempCommands\<close>.\<close>

datatype command_kind =
    EntryPointNameResolve
  | Interaction
  | TokenUpdate
  | BucketRefresh
  | PeerAnnounce
  | AutoSave

text \<open>
  The places of the \<open>try\<close> block where a collaborator that is not part of this file is
  called and may raise: the constructors of lines 140-149, the setters of lines 153-180,
  the constructor of line 183, \<open>addNode\<close> for the i-th recovered node (line 210), the
  creation and queueing of the refresh task (lines 213-216) and the construction of each
  command (lines 231-278).
\<close>

datatype step =
    New_services
  | Wiring
  | New_UDPTrackerClient
  | AddNode nat
  | CreateBucketRefreshTask
  | New_command command_kind

datatype log_entry =
    A2_LOG_ERROR_EX string exn
  | A2_LOG_DEBUG string "8 word list"
  | A2_LOG_INFO string

subsection \<open>Objects held through shared pointers\<close>

record DHTNode =
  node_id :: "8 word list"
  node_port :: uint16_t

record DHTConnectionImpl =
  conn_family :: int
  conn_socket :: "uint16_t option"

record DHTRoutingTable =
  rt_localNode :: ref
  rt_nodes :: "DHTNode list"
  rt_taskQueue :: "ref option"
  rt_taskFactory :: "ref option"

record DHTMessageFactoryImpl =
  mf_family :: int
  mf_routingTable :: "ref option"
  mf_connection :: "ref option"
  mf_messageDispatcher :: "ref option"
  mf_peerAnnounceStorage :: "ref option"
  mf_tokenTracker :: "ref option"
  mf_localNode :: "ref option"

record DHTMessageTracker =
  mt_routingTable :: "ref option"
  mt_messageFactory :: "ref option"

record DHTMessageDispatcherImpl =
  md_tracker :: ref
  md_timeout :: "int option"

record DHTMessageReceiver =
  mr_tracker :: ref
  mr_connection :: "ref option"
  mr_messageFactory :: "ref option"
  mr_routingTable :: "ref option"

record DHTTaskQueueImpl =
  tq_periodicTaskQueue1 :: "ref list"

record DHTTaskFactoryImpl =
  tf_localNode :: "ref option"
  tf_routingTable :: "ref option"
  tf_messageDispatcher :: "ref option"
  tf_messageFactory :: "ref option"
  tf_taskQueue :: "ref option"
  tf_timeout :: "int option"

record DHTPeerAnnounceStorage =
  pas_taskQueue :: "ref option"
  pas_taskFactory :: "ref option"

record DHTBucketRefreshTask =
  brt_forceRefresh :: bool

datatype obj =
    ONode DHTNode
  | OConnection DHTConnectionImpl
  | ORoutingTable DHTRoutingTable
  | OMessageFactory DHTMessageFactoryImpl
  | OMessageTracker DHTMessageTracker
  | OMessageDispatcher DHTMessageDispatcherImpl
  | OMessageReceiver DHTMessageReceiver
  | OTaskQueue DHTTaskQueueImpl
  | OTaskFactory DHTTaskFactoryImpl
  | OPeerAnnounceStorage DHTPeerAnnounceStorage
  | OTokenTracker
  | OUDPTrackerClient
  | OBucketRefreshTask DHTBucketRefreshTask

subsection \<open>Commands, owned by the returned vector\<close>

record DHTEntryPointNameResolveCommand =
  epc_cuid :: nat
  epc_entryPoints :: "(string \<times> uint16_t) list"
  epc_bootstrapEnabled :: bool
  epc_taskQueue :: "ref option"
  epc_taskFactory :: "ref option"
  epc_routingTable :: "ref option"
  epc_localNode :: "ref option"

record DHTInteractionCommand =
  ic_cuid :: nat
  ic_messageDispatcher :: "ref option"
  ic_messageReceiver :: "ref option"
  ic_taskQueue :: "ref option"
  ic_readCheckSocket :: "ref option"
  ic_connection :: "ref option"
  ic_udpTrackerClient :: "ref option"

record DHTTokenUpdateCommand =
  tuc_cuid :: nat
  tuc_interval :: int
  tuc_tokenTracker :: "ref option"

record DHTBucketRefreshCommand =
  brc_cuid :: nat
  brc_interval :: int
  brc_taskQueue :: "ref option"
  brc_routingTable :: "ref option"
  brc_taskFactory :: "ref option"

record DHTPeerAnnounceCommand =
  pac_cuid :: nat
  pac_interval :: int
  pac_peerAnnounceStorage :: "ref option"

record DHTAutoSaveCommand =
  asc_cuid :: nat
  asc_family :: int
  asc_interval :: int
  asc_localNode :: "ref option"
  asc_routingTable :: "ref option"

datatype command =
    CEntryPointNameResolve DHTEntryPointNameResolveCommand
  | CInteraction DHTInteractionCommand
  | CTokenUpdate DHTTokenUpdateCommand
  | CBucketRefresh DHTBucketRefreshCommand
  | CPeerAnnounce DHTPeerAnnounceCommand
  | CAutoSave DHTAutoSaveCommand

fun kind_of :: "command \<Rightarrow> command_kind" where
  "kind_of (CEntryPointNameResolve c) = EntryPointNameResolve"
| "kind_of (CInteraction c) = Interaction"
| "kind_of (CTokenUpdate c) = TokenUpdate"
| "kind_of (CBucketRefresh c) = BucketRefresh"
| "kind_of (CPeerAnnounce c) = PeerAnnounce"
| "kind_of (CAutoSave c) = AutoSave"

text \<open>Every reference a command holds.\<close>

fun command_refs :: "command \<Rightarrow> ref list" where
  "command_refs (CEntryPointNameResolve c) =
     List.map_filter id [epc_taskQueue c, epc_taskFactory c, epc_routingTable c, epc_localNode c]"
| "command_refs (CInteraction c) =
     List.map_filter id [ic_messageDispatcher c, ic_messageReceiver c, ic_taskQueue c,
       ic_readCheckSocket c, ic_connection c, ic_udpTrackerClient c]"
| "command_refs (CTokenUpdate c) = List.map_filter id [tuc_tokenTracker c]"
| "command_refs (CBucketRefresh c) =
     List.map_filter id [brc_taskQueue c, brc_routingTable c, brc_taskFactory c]"
| "command_refs (CPeerAnnounce c) = List.map_filter id [pac_peerAnnounceStorage c]"
| "command_refs (CAutoSave c) = List.map_filter id [asc_localNode c, asc_routingTable c]"

subsection \<open>Process state and environment\<close>

text \<open>One slot of \<open>DHTRegistry\<close> (\<open>DHTRegistry::Data\<close>).\<close>

record Data =
  initialized :: bool
  reg_localNode :: "ref option"
  reg_routingTable :: "ref option"
  reg_taskQueue :: "ref option"
  reg_taskFactory :: "ref option"
  reg_peerAnnounceStorage :: "ref option"
  reg_tokenTracker :: "ref option"
  reg_messageDispatcher :: "ref option"
  reg_messageReceiver :: "ref option"
  reg_messageFactory :: "ref option"

definition absent :: Data where
  "absent = \<lparr>initialized = False, reg_localNode = None, reg_routingTable = None, reg_taskQueue = None,
     reg_taskFactory = None, reg_peerAnnounceStorage = None, reg_tokenTracker = None,
     reg_messageDispatcher = None, reg_messageReceiver = None, reg_messageFactory = None\<rparr>"

text \<open>
  The state the call reads and writes: the store, the two slots of \<open>DHTRegistry\<close>, the
  UDP port and the tracker client of the engine's \<open>BtRegistry\<close>, the engine's command
  id counter, the ports on which a bind was attempted (oldest first) and the log.
\<close>

record world =
  heap :: "ref \<Rightarrow> obj option"
  next_ref :: ref
  dht_data :: Data
  dht_data6 :: Data
  bt_udpPort :: uint16_t
  bt_udpTrackerClient :: "ref option"
  cuidCounter :: nat
  bind_trace :: "uint16_t list"
  logger :: "log_entry list"

text \<open>
  What the call reads and never writes. The option values are taken as already parsed
  (\<open>get\<close>, \<open>getAsInt\<close>, and \<open>parseIntSegments\<close> followed by \<open>normalize\<close>), the three
  intervals are the constants of a header that is not part of this file, and the rest
  fixes the behaviour of the outside world: the content of the snapshot file or the
  exception of the loader, the identifier a new node draws, the ports the system lets
  the socket bind, and the exception a collaborator raises at a step, if any.
\<close>

record env =
  opt_get :: "Pref \<Rightarrow> string"
  opt_getAsInt :: "Pref \<Rightarrow> int"
  opt_segments :: "Pref \<Rightarrow> int list"
  DHT_TOKEN_UPDATE_INTERVAL :: int
  DHT_BUCKET_REFRESH_CHECK_INTERVAL :: int
  DHT_PEER_ANNOUNCE_CHECK_INTERVAL :: int
  snapshot :: "int \<Rightarrow> string \<Rightarrow> exn + (DHTNode option \<times> DHTNode list)"
  generated_id :: "8 word list"
  port_free :: "int \<Rightarrow> string \<Rightarrow> uint16_t \<Rightarrow> bool"
  raises :: "step \<Rightarrow> thrown option"

subsection \<open>Programs: state passing with exceptions\<close>

text \<open>A program returns an exception or a value, and in both cases the state it reached.\<close>

type_synonym 'a prog = "world \<Rightarrow> (thrown + 'a) \<times> world"

definition ret :: "'a \<Rightarrow> 'a prog" where
  "ret x w = (Inr x, w)"

definition throw :: "thrown \<Rightarrow> 'a prog" where
  "throw ex w = (Inl ex, w)"

definition bindp :: "'a prog \<Rightarrow> ('a \<Rightarrow> 'b prog) \<Rightarrow> 'b prog" where
  "bindp m f w = (case m w of (Inl ex, w') \<Rightarrow> (Inl ex, w') | (Inr x, w') \<Rightarrow> f x w')"

definition thenp :: "unit prog \<Rightarrow> 'b prog \<Rightarrow> 'b prog" where
  "thenp m k = bindp m (\<lambda>_. k)"

fun seq :: "unit prog list \<Rightarrow> unit prog" where
  "seq [] = ret ()"
| "seq (m # ms) = thenp m (seq ms)"

text \<open>\<open>try { m } catch (RecoverableException& ex) { h }\<close>: the handler is run for an
  exception of the class, and any other exception goes on to the caller.\<close>

definition try_catch :: "'a prog \<Rightarrow> (exn \<Rightarrow> 'a prog) \<Rightarrow> 'a prog" where
  "try_catch m h w =
     (case m w of
        (Inl (Recoverable ex), w') \<Rightarrow> h ex w'
      | (Inl (OtherException x), w') \<Rightarrow> (Inl (OtherException x), w')
      | (Inr x, w') \<Rightarrow> (Inr x, w'))"

definition modify :: "(world \<Rightarrow> world) \<Rightarrow> unit prog" where
  "modify g w = (Inr (), g w)"

definition may_raise :: "env \<Rightarrow> step \<Rightarrow> unit prog" where
  "may_raise env s = (case raises env s of None \<Rightarrow> ret () | Some ex \<Rightarrow> throw ex)"

definition write_log :: "log_entry \<Rightarrow> unit prog" where
  "write_log l = modify (\<lambda>w. w\<lparr>logger := logger w @ [l]\<rparr>)"

subsection \<open>The store\<close>

definition new :: "obj \<Rightarrow> ref prog" where
  "new ob w = (Inr (next_ref w),
     w\<lparr>heap := (heap w)(next_ref w \<mapsto> ob), next_ref := Suc (next_ref w)\<rparr>)"

definition update_obj :: "ref \<Rightarrow> (obj \<Rightarrow> obj) \<Rightarrow> unit prog" where
  "update_obj r f = modify (\<lambda>w. case heap w r of None \<Rightarrow> w
     | Some ob \<Rightarrow> w\<lparr>heap := (heap w)(r \<mapsto> f ob)\<rparr>)"

fun on_Node :: "(DHTNode \<Rightarrow> DHTNode) \<Rightarrow> obj \<Rightarrow> obj" where
  "on_Node f (ONode x) = ONode (f x)"
| "on_Node f ob = ob"

fun on_Connection :: "(DHTConnectionImpl \<Rightarrow> DHTConnectionImpl) \<Rightarrow> obj \<Rightarrow> obj" where
  "on_Connection f (OConnection x) = OConnection (f x)"
| "on_Connection f ob = ob"

fun on_RoutingTable :: "(DHTRoutingTable \<Rightarrow> DHTRoutingTable) \<Rightarrow> obj \<Rightarrow> obj" where
  "on_RoutingTable f (ORoutingTable x) = ORoutingTable (f x)"
| "on_RoutingTable f ob = ob"

fun on_MessageFactory :: "(DHTMessageFactoryImpl \<Rightarrow> DHTMessageFactoryImpl) \<Rightarrow> obj \<Rightarrow> obj" where
  "on_MessageFactory f (OMessageFactory x) = OMessageFactory (f x)"
| "on_MessageFactory f ob = ob"

fun on_MessageTracker :: "(DHTMessageTracker \<Rightarrow> DHTMessageTracker) \<Rightarrow> obj \<Rightarrow> obj" where
  "on_MessageTracker f (OMessageTracker x) = OMessageTracker (f x)"
| "on_MessageTracker f ob = ob"

fun on_MessageDispatcher ::
  "(DHTMessageDispatcherImpl \<Rightarrow> DHTMessageDispatcherImpl) \<Rightarrow> obj \<Rightarrow> obj" where
  "on_MessageDispatcher f (OMessageDispatcher x) = OMessageDispatcher (f x)"
| "on_MessageDispatcher f ob = ob"

fun on_MessageReceiver :: "(DHTMessageReceiver \<Rightarrow> DHTMessageReceiver) \<Rightarrow> obj \<Rightarrow> obj" where
  "on_MessageReceiver f (OMessageReceiver x) = OMessageReceiver (f x)"
| "on_MessageReceiver f ob = ob"

fun on_TaskQueue :: "(DHTTaskQueueImpl \<Rightarrow> DHTTaskQueueImpl) \<Rightarrow> obj \<Rightarrow> obj" where
  "on_TaskQueue f (OTaskQueue x) = OTaskQueue (f x)"
| "on_TaskQueue f ob = ob"

fun on_TaskFactory :: "(DHTTaskFactoryImpl \<Rightarrow> DHTTaskFactoryImpl) \<Rightarrow> obj \<Rightarrow> obj" where
  "on_TaskFactory f (OTaskFactory x) = OTaskFactory (f x)"
| "on_TaskFactory f ob = ob"

fun on_PeerAnnounceStorage ::
  "(DHTPeerAnnounceStorage \<Rightarrow> DHTPeerAnnounceStorage) \<Rightarrow> obj \<Rightarrow> obj" where
  "on_PeerAnnounceStorage f (OPeerAnnounceStorage x) = OPeerAnnounceStorage (f x)"
| "on_PeerAnnounceStorage f ob = ob"

fun on_BucketRefreshTask :: "(DHTBucketRefreshTask \<Rightarrow> DHTBucketRefreshTask) \<Rightarrow> obj \<Rightarrow> obj" where
  "on_BucketRefreshTask f (OBucketRefreshTask x) = OBucketRefreshTask (f x)"
| "on_BucketRefreshTask f ob = ob"

subsection \<open>Collaborators\<close>

text \<open>\<open>DownloadEngine::newCUID\<close>: the next command id of the engine.\<close>

definition newCUID :: "nat prog" where
  "newCUID w = (Inr (Suc (cuidCounter w)), w\<lparr>cuidCounter := Suc (cuidCounter w)\<rparr>)"

text \<open>
  Modelled from the spec: \<open>DHTRoutingTableDeserializer\<close> is not part of this file. Its
  \<open>deserialize\<close> reads the snapshot of one family, yields "a recoverable failure" or
  the content, and "never yields a partial result": it raises an exception of class
  \<open>RecoverableException\<close> and keeps the deserializer as constructed (no local node, no
  nodes), or it stores the local node, if the snapshot has one, and the recovered nodes.
\<close>

record DHTRoutingTableDeserializer =
  des_localNode :: "ref option"
  des_nodes :: "DHTNode list"

definition deserialize :: "env \<Rightarrow> int \<Rightarrow> string \<Rightarrow> DHTRoutingTableDeserializer prog" where
  "deserialize env family dhtFile =
     (case snapshot env family dhtFile of
        Inl ex \<Rightarrow> throw (Recoverable ex)
      | Inr (None, nodes) \<Rightarrow> ret \<lparr>des_localNode = None, des_nodes = nodes\<rparr>
      | Inr (Some n, nodes) \<Rightarrow>
          bindp (new (ONode n)) (\<lambda>r. ret \<lparr>des_localNode = Some r, des_nodes = nodes\<rparr>))"

text \<open>
  Modelled from the spec: \<open>DHTConnectionImpl::bind\<close> is not part of this file. The
  transport offers \<open>bind(port, address)\<close>, which succeeds or fails, and
  \<open>bind(0, address, candidatePorts)\<close>, "trying candidates strictly in order and stopping
  at first success". Both report failure by their result and never raise. The port is
  passed by reference: the second form leaves in it the last candidate it tried. Every
  attempt is appended to \<open>bind_trace\<close>; a successful one sets the socket of the
  connection.
\<close>

definition connection_bind :: "env \<Rightarrow> ref \<Rightarrow> uint16_t \<Rightarrow> string \<Rightarrow> bool prog" where
  "connection_bind env connection port addr w =
    (case heap w connection of
       Some (OConnection c) \<Rightarrow>
         if port_free env (conn_family c) addr port
         then (Inr True, w\<lparr>heap := (heap w)(connection \<mapsto> OConnection (c\<lparr>conn_socket := Some port\<rparr>)),
                 bind_trace := bind_trace w @ [port]\<rparr>)
         else (Inr False, w\<lparr>bind_trace := bind_trace w @ [port]\<rparr>)
     | _ \<Rightarrow> (Inr False, w))"

fun connection_bind_sgl ::
  "env \<Rightarrow> ref \<Rightarrow> uint16_t \<Rightarrow> string \<Rightarrow> int list \<Rightarrow> (bool \<times> uint16_t) prog" where
  "connection_bind_sgl env connection port addr [] = ret (False, port)"
| "connection_bind_sgl env connection port addr (p # sgl) =
     bindp (connection_bind env connection (word_of_int p) addr) (\<lambda>rv.
       if rv then ret (True, word_of_int p)
       else connection_bind_sgl env connection (word_of_int p) addr sgl)"

text \<open>
  Modelled from the spec: \<open>DHTRoutingTable::addNode\<close> is not part of this file, and the
  bucket algorithm behind it is outside the specification, which only says that each
  recovered peer is re-inserted into the routing table. The table keeps the inserted
  nodes in order of insertion.
\<close>

definition addNode :: "ref \<Rightarrow> DHTNode \<Rightarrow> unit prog" where
  "addNode routingTable node =
     update_obj routingTable (on_RoutingTable (\<lambda>t. t\<lparr>rt_nodes := rt_nodes t @ [node]\<rparr>))"

text \<open>\<open>DHTTaskFactoryImpl::createBucketRefreshTask\<close>, \<open>DHTBucketRefreshTask::setForceRefresh\<close>
  and \<open>DHTTaskQueueImpl::addPeriodicTask1\<close>: a new task that does not force the refresh,
  its flag, and the first periodic queue.\<close>

definition createBucketRefreshTask :: "ref \<Rightarrow> ref prog" where
  "createBucketRefreshTask taskFactory = new (OBucketRefreshTask \<lparr>brt_forceRefresh = False\<rparr>)"

definition setForceRefresh :: "ref \<Rightarrow> bool \<Rightarrow> unit prog" where
  "setForceRefresh task b = update_obj task (on_BucketRefreshTask (\<lambda>t. t\<lparr>brt_forceRefresh := b\<rparr>))"

definition addPeriodicTask1 :: "ref \<Rightarrow> ref \<Rightarrow> unit prog" where
  "addPeriodicTask1 taskQueue task =
     update_obj taskQueue
       (on_TaskQueue (\<lambda>q. q\<lparr>tq_periodicTaskQueue1 := tq_periodicTaskQueue1 q @ [task]\<rparr>))"

text \<open>The \<open>initialized\<close> flag of the two slots of \<open>DHTRegistry\<close>.\<close>

definition isInitialized :: "world \<Rightarrow> bool" where
  "isInitialized w = initialized (dht_data w)"

definition isInitialized6 :: "world \<Rightarrow> bool" where
  "isInitialized6 w = initialized (dht_data6 w)"

definition setInitialized :: "bool \<Rightarrow> unit prog" where
  "setInitialized b = modify (\<lambda>w. w\<lparr>dht_data := (dht_data w)\<lparr>initialized := b\<rparr>\<rparr>)"

definition setInitialized6 :: "bool \<Rightarrow> unit prog" where
  "setInitialized6 b = modify (\<lambda>w. w\<lparr>dht_data6 := (dht_data6 w)\<lparr>initialized := b\<rparr>\<rparr>)"

text \<open>
  Modelled from the spec: \<open>DHTRegistry::clearData\<close> and \<open>DHTRegistry::clearData6\<close> are
  not part of this file. On a failure "the registry slot for the family is cleared back
  to absent", and "the other family's stack, if present, is never touched".
\<close>

definition clearData :: "unit prog" where
  "clearData = modify (\<lambda>w. w\<lparr>dht_data := absent\<rparr>)"

definition clearData6 :: "unit prog" where
  "clearData6 = modify (\<lambda>w. w\<lparr>dht_data6 := absent\<rparr>)"

text \<open>The UDP port and the tracker client of \<open>BtRegistry\<close>.\<close>

definition getUdpPort :: "uint16_t prog" where
  "getUdpPort w = (Inr (bt_udpPort w), w)"

definition setUdpPort :: "uint16_t \<Rightarrow> unit prog" where
  "setUdpPort port = modify (\<lambda>w. w\<lparr>bt_udpPort := port\<rparr>)"

definition setUDPTrackerClient :: "ref option \<Rightarrow> unit prog" where
  "setUDPTrackerClient c = modify (\<lambda>w. w\<lparr>bt_udpTrackerClient := c\<rparr>)"

definition getID :: "ref \<Rightarrow> (8 word list) prog" where
  "getID node w = (Inr (case heap w node of Some (ONode n) \<Rightarrow> node_id n | _ \<Rightarrow> []), w)"

definition mutableData :: "(Data \<Rightarrow> Data) \<Rightarrow> unit prog" where
  "mutableData f = modify (\<lambda>w. w\<lparr>dht_data := f (dht_data w)\<rparr>)"

definition mutableData6 :: "(Data \<Rightarrow> Data) \<Rightarrow> unit prog" where
  "mutableData6 f = modify (\<lambda>w. w\<lparr>dht_data6 := f (dht_data6 w)\<rparr>)"

subsection \<open>The body of \<open>setup\<close>, in the order of the source\<close>

text \<open>The local variables that hold the shared objects of one call.\<close>

record services =
  sv_localNode :: ref
  sv_connection :: ref
  sv_routingTable :: ref
  sv_factory :: ref
  sv_tracker :: ref
  sv_dispatcher :: ref
  sv_receiver :: ref
  sv_taskQueue :: ref
  sv_taskFactory :: ref
  sv_peerAnnounceStorage :: ref
  sv_tokenTracker :: ref

text \<open>
  Lines 94-111: the snapshot is loaded inside an inner \<open>try\<close>; its exception is logged
  and swallowed, and a node without a snapshot identity gets a new one.
\<close>

definition load_local_node :: "env \<Rightarrow> int \<Rightarrow> (DHTRoutingTableDeserializer \<times> ref) prog" where
  "load_local_node env family =
     (let dhtFile = opt_get env (if family = AF_INET then PREF_DHT_FILE_PATH
                                 else PREF_DHT_FILE_PATH6);
          constructed = \<lparr>des_localNode = None, des_nodes = []\<rparr>
      in bindp (try_catch (deserialize env family dhtFile)
                  (\<lambda>ex. thenp (write_log (A2_LOG_ERROR_EX
                      (''Exception caught while loading DHT routing table from '' @ dhtFile) ex))
                    (ret constructed)))
           (\<lambda>deserializer.
         bindp (case des_localNode deserializer of
                  Some r \<Rightarrow> ret r
                | None \<Rightarrow> new (ONode \<lparr>node_id = generated_id env, node_port = 0\<rparr>))
           (\<lambda>localNode. ret (deserializer, localNode))))"

text \<open>
  Lines 113-137: the port of \<open>BtRegistry\<close> is reused when it is not zero, otherwise the
  candidates of the listen-port option are tried; a failed bind raises, a successful one
  gives the local node its port.
\<close>

definition bind_port :: "env \<Rightarrow> int \<Rightarrow> ref \<Rightarrow> (ref \<times> uint16_t) prog" where
  "bind_port env family localNode =
     bindp (new (OConnection \<lparr>conn_family = family, conn_socket = None\<rparr>)) (\<lambda>connection.
     bindp getUdpPort (\<lambda>port.
     let addr = opt_get env (if family = AF_INET then PREF_DHT_LISTEN_ADDR
                             else PREF_DHT_LISTEN_ADDR6)
     in bindp (if port = 0
               then connection_bind_sgl env connection port addr
                      (opt_segments env PREF_DHT_LISTEN_PORT)
               else bindp (connection_bind env connection port addr) (\<lambda>rv. ret (rv, port)))
          (\<lambda>(rv, port).
        if \<not> rv
        then throw (Recoverable (DlAbortEx ''Error occurred while binding UDP port for DHT''))
        else thenp (update_obj localNode (on_Node (\<lambda>n. n\<lparr>node_port := port\<rparr>)))
               (ret (connection, port)))))"

text \<open>Lines 138-149: the services are constructed.\<close>

definition new_services :: "env \<Rightarrow> int \<Rightarrow> ref \<Rightarrow> ref \<Rightarrow> services prog" where
  "new_services env family localNode connection =
     bindp (getID localNode) (\<lambda>ident.
     thenp (write_log (A2_LOG_DEBUG ''Initialized local node ID='' ident)) (
     thenp (may_raise env New_services) (
     bindp (new (ORoutingTable \<lparr>rt_localNode = localNode, rt_nodes = [],
                   rt_taskQueue = None, rt_taskFactory = None\<rparr>)) (\<lambda>routingTable.
     bindp (new (OMessageFactory \<lparr>mf_family = family, mf_routingTable = None,
                   mf_connection = None, mf_messageDispatcher = None,
                   mf_peerAnnounceStorage = None, mf_tokenTracker = None,
                   mf_localNode = None\<rparr>)) (\<lambda>factory.
     bindp (new (OMessageTracker \<lparr>mt_routingTable = None, mt_messageFactory = None\<rparr>)) (\<lambda>tracker.
     bindp (new (OMessageDispatcher \<lparr>md_tracker = tracker, md_timeout = None\<rparr>)) (\<lambda>dispatcher.
     bindp (new (OMessageReceiver \<lparr>mr_tracker = tracker, mr_connection = None,
                   mr_messageFactory = None, mr_routingTable = None\<rparr>)) (\<lambda>receiver.
     bindp (new (OTaskQueue \<lparr>tq_periodicTaskQueue1 = []\<rparr>)) (\<lambda>taskQueue.
     bindp (new (OTaskFactory \<lparr>tf_localNode = None, tf_routingTable = None,
                   tf_messageDispatcher = None, tf_messageFactory = None,
                   tf_taskQueue = None, tf_timeout = None\<rparr>)) (\<lambda>taskFactory.
     bindp (new (OPeerAnnounceStorage \<lparr>pas_taskQueue = None, pas_taskFactory = None\<rparr>))
       (\<lambda>peerAnnounceStorage.
     bindp (new OTokenTracker) (\<lambda>tokenTracker.
     ret \<lparr>sv_localNode = localNode, sv_connection = connection,
          sv_routingTable = routingTable, sv_factory = factory, sv_tracker = tracker,
          sv_dispatcher = dispatcher, sv_receiver = receiver, sv_taskQueue = taskQueue,
          sv_taskFactory = taskFactory, sv_peerAnnounceStorage = peerAnnounceStorage,
          sv_tokenTracker = tokenTracker\<rparr>))))))))))))"

text \<open>Lines 150-180: the message timeout is read and the services are wired.\<close>

definition wire_services :: "env \<Rightarrow> services \<Rightarrow> unit prog" where
  "wire_services env sv =
     (let messageTimeout = opt_getAsInt env PREF_DHT_MESSAGE_TIMEOUT
      in thenp (may_raise env Wiring) (seq [
        update_obj (sv_tracker sv)
          (on_MessageTracker (\<lambda>t. t\<lparr>mt_routingTable := Some (sv_routingTable sv)\<rparr>)),
        update_obj (sv_tracker sv)
          (on_MessageTracker (\<lambda>t. t\<lparr>mt_messageFactory := Some (sv_factory sv)\<rparr>)),
        update_obj (sv_dispatcher sv)
          (on_MessageDispatcher (\<lambda>t. t\<lparr>md_timeout := Some messageTimeout\<rparr>)),
        update_obj (sv_receiver sv)
          (on_MessageReceiver (\<lambda>t. t\<lparr>mr_connection := Some (sv_connection sv)\<rparr>)),
        update_obj (sv_receiver sv)
          (on_MessageReceiver (\<lambda>t. t\<lparr>mr_messageFactory := Some (sv_factory sv)\<rparr>)),
        update_obj (sv_receiver sv)
          (on_MessageReceiver (\<lambda>t. t\<lparr>mr_routingTable := Some (sv_routingTable sv)\<rparr>)),
        update_obj (sv_taskFactory sv)
          (on_TaskFactory (\<lambda>t. t\<lparr>tf_localNode := Some (sv_localNode sv)\<rparr>)),
        update_obj (sv_taskFactory sv)
          (on_TaskFactory (\<lambda>t. t\<lparr>tf_routingTable := Some (sv_routingTable sv)\<rparr>)),
        update_obj (sv_taskFactory sv)
          (on_TaskFactory (\<lambda>t. t\<lparr>tf_messageDispatcher := Some (sv_dispatcher sv)\<rparr>)),
        update_obj (sv_taskFactory sv)
          (on_TaskFactory (\<lambda>t. t\<lparr>tf_messageFactory := Some (sv_factory sv)\<rparr>)),
        update_obj (sv_taskFactory sv)
          (on_TaskFactory (\<lambda>t. t\<lparr>tf_taskQueue := Some (sv_taskQueue sv)\<rparr>)),
        update_obj (sv_taskFactory sv)
          (on_TaskFactory (\<lambda>t. t\<lparr>tf_timeout := Some messageTimeout\<rparr>)),
        update_obj (sv_routingTable sv)
          (on_RoutingTable (\<lambda>t. t\<lparr>rt_taskQueue := Some (sv_taskQueue sv)\<rparr>)),
        update_obj (sv_routingTable sv)
          (on_RoutingTable (\<lambda>t. t\<lparr>rt_taskFactory := Some (sv_taskFactory sv)\<rparr>)),
        update_obj (sv_peerAnnounceStorage sv)
          (on_PeerAnnounceStorage (\<lambda>t. t\<lparr>pas_taskQueue := Some (sv_taskQueue sv)\<rparr>)),
        update_obj (sv_peerAnnounceStorage sv)
          (on_PeerAnnounceStorage (\<lambda>t. t\<lparr>pas_taskFactory := Some (sv_taskFactory sv)\<rparr>)),
        update_obj (sv_factory sv)
          (on_MessageFactory (\<lambda>t. t\<lparr>mf_routingTable := Some (sv_routingTable sv)\<rparr>)),
        update_obj (sv_factory sv)
          (on_MessageFactory (\<lambda>t. t\<lparr>mf_connection := Some (sv_connection sv)\<rparr>)),
        update_obj (sv_factory sv)
          (on_MessageFactory (\<lambda>t. t\<lparr>mf_messageDispatcher := Some (sv_dispatcher sv)\<rparr>)),
        update_obj (sv_factory sv)
          (on_MessageFactory (\<lambda>t. t\<lparr>mf_peerAnnounceStorage := Some (sv_peerAnnounceStorage sv)\<rparr>)),
        update_obj (sv_factory sv)
          (on_MessageFactory (\<lambda>t. t\<lparr>mf_tokenTracker := Some (sv_tokenTracker sv)\<rparr>)),
        update_obj (sv_factory sv)
          (on_MessageFactory (\<lambda>t. t\<lparr>mf_localNode := Some (sv_localNode sv)\<rparr>))]))"

text \<open>
  Lines 182-206: the tracker client is constructed for either family; the services are
  assigned to the slot of the family, and for \<open>AF_INET\<close> only the tracker client is
  stored in \<open>BtRegistry\<close>.
\<close>

definition assign_registry :: "env \<Rightarrow> int \<Rightarrow> services \<Rightarrow> ref prog" where
  "assign_registry env family sv =
     thenp (may_raise env New_UDPTrackerClient) (
     bindp (new OUDPTrackerClient) (\<lambda>udpTrackerClient.
     thenp (if family = AF_INET
            then seq [
              mutableData (\<lambda>d. d\<lparr>reg_localNode := Some (sv_localNode sv)\<rparr>),
              mutableData (\<lambda>d. d\<lparr>reg_routingTable := Some (sv_routingTable sv)\<rparr>),
              mutableData (\<lambda>d. d\<lparr>reg_taskQueue := Some (sv_taskQueue sv)\<rparr>),
              mutableData (\<lambda>d. d\<lparr>reg_taskFactory := Some (sv_taskFactory sv)\<rparr>),
              mutableData (\<lambda>d. d\<lparr>reg_peerAnnounceStorage := Some (sv_peerAnnounceStorage sv)\<rparr>),
              mutableData (\<lambda>d. d\<lparr>reg_tokenTracker := Some (sv_tokenTracker sv)\<rparr>),
              mutableData (\<lambda>d. d\<lparr>reg_messageDispatcher := Some (sv_dispatcher sv)\<rparr>),
              mutableData (\<lambda>d. d\<lparr>reg_messageReceiver := Some (sv_receiver sv)\<rparr>),
              mutableData (\<lambda>d. d\<lparr>reg_messageFactory := Some (sv_factory sv)\<rparr>),
              setUDPTrackerClient (Some udpTrackerClient)]
            else seq [
              mutableData6 (\<lambda>d. d\<lparr>reg_localNode := Some (sv_localNode sv)\<rparr>),
              mutableData6 (\<lambda>d. d\<lparr>reg_routingTable := Some (sv_routingTable sv)\<rparr>),
              mutableData6 (\<lambda>d. d\<lparr>reg_taskQueue := Some (sv_taskQueue sv)\<rparr>),
              mutableData6 (\<lambda>d. d\<lparr>reg_taskFactory := Some (sv_taskFactory sv)\<rparr>),
              mutableData6 (\<lambda>d. d\<lparr>reg_peerAnnounceStorage := Some (sv_peerAnnounceStorage sv)\<rparr>),
              mutableData6 (\<lambda>d. d\<lparr>reg_tokenTracker := Some (sv_tokenTracker sv)\<rparr>),
              mutableData6 (\<lambda>d. d\<lparr>reg_messageDispatcher := Some (sv_dispatcher sv)\<rparr>),
              mutableData6 (\<lambda>d. d\<lparr>reg_messageReceiver := Some (sv_receiver sv)\<rparr>),
              mutableData6 (\<lambda>d. d\<lparr>reg_messageFactory := Some (sv_factory sv)\<rparr>)])
       (ret udpTrackerClient)))"

text \<open>
  Lines 207-217: every recovered node is added to the routing table; when there is at
  least one, a bucket refresh task is created, forced, and put on the task queue.
\<close>

fun add_nodes :: "env \<Rightarrow> ref \<Rightarrow> nat \<Rightarrow> DHTNode list \<Rightarrow> unit prog" where
  "add_nodes env routingTable i [] = ret ()"
| "add_nodes env routingTable i (node # desnodes) =
     thenp (may_raise env (AddNode i)) (
     thenp (addNode routingTable node) (add_nodes env routingTable (Suc i) desnodes))"

definition seed_routing_table :: "env \<Rightarrow> services \<Rightarrow> DHTNode list \<Rightarrow> unit prog" where
  "seed_routing_table env sv desnodes =
     thenp (add_nodes env (sv_routingTable sv) 0 desnodes) (
     if desnodes \<noteq> []
     then thenp (may_raise env CreateBucketRefreshTask) (
          bindp (createBucketRefreshTask (sv_taskFactory sv)) (\<lambda>task.
          thenp (setForceRefresh task True) (addPeriodicTask1 (sv_taskQueue sv) task)))
     else ret ())"

text \<open>
  Lines 219-242: when the entry point host of the family is not empty, the name resolve
  command is the first command pushed on \<open>tempCommands\<close>.
\<close>

definition entry_point_command :: "env \<Rightarrow> int \<Rightarrow> services \<Rightarrow> command list prog" where
  "entry_point_command env family sv =
     (let prefEntryPointHost = (if family = AF_INET then PREF_DHT_ENTRY_POINT_HOST
                                else PREF_DHT_ENTRY_POINT_HOST6)
      in if opt_get env prefEntryPointHost \<noteq> []
         then (let prefEntryPointPort = (if family = AF_INET then PREF_DHT_ENTRY_POINT_PORT
                                         else PREF_DHT_ENTRY_POINT_PORT6);
                   addr = (opt_get env prefEntryPointHost,
                           word_of_int (opt_getAsInt env prefEntryPointPort))
               in bindp newCUID (\<lambda>cuid.
                  thenp (may_raise env (New_command EntryPointNameResolve)) (
                  ret [CEntryPointNameResolve
                    \<lparr>epc_cuid = cuid, epc_entryPoints = [addr], epc_bootstrapEnabled = True,
                     epc_taskQueue = Some (sv_taskQueue sv),
                     epc_taskFactory = Some (sv_taskFactory sv),
                     epc_routingTable = Some (sv_routingTable sv),
                     epc_localNode = Some (sv_localNode sv)\<rparr>])))
         else thenp (write_log (A2_LOG_INFO ''No DHT entry point specified.'')) (ret []))"

text \<open>Lines 243-279: the five commands that are always pushed, in this order. The
  socket of a connection is part of the connection object, so the socket the interaction
  command watches is given by the reference of the connection.\<close>

definition interaction_command :: "env \<Rightarrow> services \<Rightarrow> ref \<Rightarrow> command prog" where
  "interaction_command env sv udpTrackerClient =
     bindp newCUID (\<lambda>cuid.
     thenp (may_raise env (New_command Interaction)) (
     ret (CInteraction
       \<lparr>ic_cuid = cuid, ic_messageDispatcher = Some (sv_dispatcher sv),
        ic_messageReceiver = Some (sv_receiver sv), ic_taskQueue = Some (sv_taskQueue sv),
        ic_readCheckSocket = Some (sv_connection sv), ic_connection = Some (sv_connection sv),
        ic_udpTrackerClient = Some udpTrackerClient\<rparr>)))"

definition token_update_command :: "env \<Rightarrow> services \<Rightarrow> command prog" where
  "token_update_command env sv =
     bindp newCUID (\<lambda>cuid.
     thenp (may_raise env (New_command TokenUpdate)) (
     ret (CTokenUpdate
       \<lparr>tuc_cuid = cuid, tuc_interval = DHT_TOKEN_UPDATE_INTERVAL env,
        tuc_tokenTracker = Some (sv_tokenTracker sv)\<rparr>)))"

definition bucket_refresh_command :: "env \<Rightarrow> services \<Rightarrow> command prog" where
  "bucket_refresh_command env sv =
     bindp newCUID (\<lambda>cuid.
     thenp (may_raise env (New_command BucketRefresh)) (
     ret (CBucketRefresh
       \<lparr>brc_cuid = cuid, brc_interval = DHT_BUCKET_REFRESH_CHECK_INTERVAL env,
        brc_taskQueue = Some (sv_taskQueue sv), brc_routingTable = Some (sv_routingTable sv),
        brc_taskFactory = Some (sv_taskFactory sv)\<rparr>)))"

definition peer_announce_command :: "env \<Rightarrow> services \<Rightarrow> command prog" where
  "peer_announce_command env sv =
     bindp newCUID (\<lambda>cuid.
     thenp (may_raise env (New_command PeerAnnounce)) (
     ret (CPeerAnnounce
       \<lparr>pac_cuid = cuid, pac_interval = DHT_PEER_ANNOUNCE_CHECK_INTERVAL env,
        pac_peerAnnounceStorage = Some (sv_peerAnnounceStorage sv)\<rparr>)))"

definition auto_save_command :: "env \<Rightarrow> int \<Rightarrow> services \<Rightarrow> command prog" where
  "auto_save_command env family sv =
     bindp newCUID (\<lambda>cuid.
     thenp (may_raise env (New_command AutoSave)) (
     ret (CAutoSave
       \<lparr>asc_cuid = cuid, asc_family = family, asc_interval = 30 * 60,
        asc_localNode = Some (sv_localNode sv),
        asc_routingTable = Some (sv_routingTable sv)\<rparr>)))"

definition fixed_commands ::
  "env \<Rightarrow> int \<Rightarrow> services \<Rightarrow> ref \<Rightarrow> command list \<Rightarrow> command list prog" where
  "fixed_commands env family sv udpTrackerClient tempCommands =
     bindp (interaction_command env sv udpTrackerClient) (\<lambda>c1.
     bindp (token_update_command env sv) (\<lambda>c2.
     bindp (bucket_refresh_command env sv) (\<lambda>c3.
     bindp (peer_announce_command env sv) (\<lambda>c4.
     bindp (auto_save_command env family sv) (\<lambda>c5.
     ret (tempCommands @ [c1, c2, c3, c4, c5]))))))"

text \<open>
  Lines 280-288: the slot is marked initialized, and the bound port is stored in
  \<open>BtRegistry\<close> when its port is still zero.
\<close>

definition publish :: "int \<Rightarrow> uint16_t \<Rightarrow> unit prog" where
  "publish family port =
     thenp (if family = AF_INET then setInitialized True else setInitialized6 True) (
     bindp getUdpPort (\<lambda>p. if p = 0 then setUdpPort port else ret ()))"

text \<open>Lines 92-288: the \<open>try\<close> block.\<close>

definition setup_try :: "env \<Rightarrow> int \<Rightarrow> command list prog" where
  "setup_try env family =
     bindp (load_local_node env family) (\<lambda>(deserializer, localNode).
     bindp (bind_port env family localNode) (\<lambda>(connection, port).
     bindp (new_services env family localNode connection) (\<lambda>sv.
     thenp (wire_services env sv) (
     bindp (assign_registry env family sv) (\<lambda>udpTrackerClient.
     thenp (seed_routing_table env sv (des_nodes deserializer)) (
     bindp (entry_point_command env family sv) (\<lambda>tempCommands.
     bindp (fixed_commands env family sv udpTrackerClient tempCommands) (\<lambda>tempCommands.
     thenp (publish family port) (
     ret tempCommands)))))))))"

text \<open>Lines 289-301: the handler of the \<open>try\<close> block, for an exception of class
  \<open>RecoverableException\<close>; \<open>tempCommands\<close> is cleared by the caller of the handler
  below.\<close>

definition rollback :: "int \<Rightarrow> exn \<Rightarrow> unit prog" where
  "rollback family ex =
     thenp (write_log (A2_LOG_ERROR_EX
        ''Exception caught while initializing DHT functionality. DHT is disabled.'' ex)) (
     if family = AF_INET then thenp clearData (setUDPTrackerClient None)
     else clearData6)"

text \<open>
  Lines 83-303: \<open>DHTSetup::setup\<close>. It returns \<open>tempCommands\<close> and the new state. An
  exception that is not of class \<open>RecoverableException\<close> is not caught at line 289: the
  function returns nothing, the exception reaches the caller, and the state is the one
  reached when it was raised.
\<close>

definition DHTSetup_setup :: "env \<Rightarrow> int \<Rightarrow> command list prog" where
  "DHTSetup_setup env family w =
     (if (family \<noteq> AF_INET \<and> family \<noteq> AF_INET6) \<or>
         (family = AF_INET \<and> isInitialized w) \<or>
         (family = AF_INET6 \<and> isInitialized6 w)
      then (Inr [], w)
      else case setup_try env family w of
             (Inr tempCommands, w') \<Rightarrow> (Inr tempCommands, w')
           | (Inl (Recoverable ex), w') \<Rightarrow> (Inr [], snd (rollback family ex w'))
           | (Inl (OtherException x), w') \<Rightarrow> (Inl (OtherException x), w'))"

section \<open>Vocabulary of the statements\<close>

text \<open>The guard of lines 87-89: the family is not recognised, or its slot is initialized.\<close>

definition rejected :: "int \<Rightarrow> world \<Rightarrow> bool" where
  "rejected family w \<longleftrightarrow>
     (family \<noteq> AF_INET \<and> family \<noteq> AF_INET6) \<or>
     (family = AF_INET \<and> isInitialized w) \<or>
     (family = AF_INET6 \<and> isInitialized6 w)"

text \<open>How a call ends: at the guard, in the handler of the \<open>try\<close> block, with an
  exception that the handler does not catch, or at the end of the \<open>try\<close> block.\<close>

datatype outcome = Rejected | Failed exn | Escaped string | Succeeded

definition outcome :: "env \<Rightarrow> int \<Rightarrow> world \<Rightarrow> outcome" where
  "outcome env family w =
     (if rejected family w then Rejected
      else case fst (setup_try env family w) of
             Inl (Recoverable ex) \<Rightarrow> Failed ex
           | Inl (OtherException x) \<Rightarrow> Escaped x
           | Inr tempCommands \<Rightarrow> Succeeded)"

text \<open>The slot of a family, and the objects it refers to.\<close>

definition slot :: "int \<Rightarrow> world \<Rightarrow> Data" where
  "slot family w = (if family = AF_INET then dht_data w else dht_data6 w)"

definition local_node_of :: "int \<Rightarrow> world \<Rightarrow> DHTNode option" where
  "local_node_of family w =
     (case reg_localNode (slot family w) of
        None \<Rightarrow> None
      | Some r \<Rightarrow> (case heap w r of Some (ONode n) \<Rightarrow> Some n | _ \<Rightarrow> None))"

definition routing_table_of :: "int \<Rightarrow> world \<Rightarrow> DHTRoutingTable option" where
  "routing_table_of family w =
     (case reg_routingTable (slot family w) of
        None \<Rightarrow> None
      | Some r \<Rightarrow> (case heap w r of Some (ORoutingTable t) \<Rightarrow> Some t | _ \<Rightarrow> None))"

definition task_queue_of :: "int \<Rightarrow> world \<Rightarrow> DHTTaskQueueImpl option" where
  "task_queue_of family w =
     (case reg_taskQueue (slot family w) of
        None \<Rightarrow> None
      | Some r \<Rightarrow> (case heap w r of Some (OTaskQueue q) \<Rightarrow> Some q | _ \<Rightarrow> None))"

text \<open>The tasks on the first periodic queue of the family's task queue.\<close>

definition scheduled_tasks :: "int \<Rightarrow> world \<Rightarrow> obj option list" where
  "scheduled_tasks family w =
     (case task_queue_of family w of
        None \<Rightarrow> []
      | Some q \<Rightarrow> map (heap w) (tq_periodicTaskQueue1 q))"

text \<open>The connection and the tracker client an interaction command was given.\<close>

fun transport_of :: "world \<Rightarrow> command \<Rightarrow> DHTConnectionImpl option" where
  "transport_of w (CInteraction c) =
     (case ic_connection c of
        None \<Rightarrow> None
      | Some r \<Rightarrow> (case heap w r of Some (OConnection x) \<Rightarrow> Some x | _ \<Rightarrow> None))"
| "transport_of w c = None"

fun tracker_client_of :: "command \<Rightarrow> ref option" where
  "tracker_client_of (CInteraction c) = ic_udpTrackerClient c"
| "tracker_client_of c = None"

text \<open>What the loader yields for a family: the options read at lines 97-99, and the
  identity, nodes and log entry that lines 100-111 leave.\<close>

definition dht_file :: "env \<Rightarrow> int \<Rightarrow> string" where
  "dht_file env family =
     opt_get env (if family = AF_INET then PREF_DHT_FILE_PATH else PREF_DHT_FILE_PATH6)"

definition recovered_identity :: "env \<Rightarrow> int \<Rightarrow> DHTNode option" where
  "recovered_identity env family =
     (case snapshot env family (dht_file env family) of Inl ex \<Rightarrow> None | Inr (n, ns) \<Rightarrow> n)"

definition recovered_nodes :: "env \<Rightarrow> int \<Rightarrow> DHTNode list" where
  "recovered_nodes env family =
     (case snapshot env family (dht_file env family) of Inl ex \<Rightarrow> [] | Inr (n, ns) \<Rightarrow> ns)"

definition local_identity :: "env \<Rightarrow> int \<Rightarrow> DHTNode" where
  "local_identity env family =
     (case recovered_identity env family of
        Some n \<Rightarrow> n
      | None \<Rightarrow> \<lparr>node_id = generated_id env, node_port = 0\<rparr>)"

definition load_log :: "env \<Rightarrow> int \<Rightarrow> log_entry list" where
  "load_log env family =
     (case snapshot env family (dht_file env family) of
        Inl ex \<Rightarrow> [A2_LOG_ERROR_EX
          (''Exception caught while loading DHT routing table from '' @ dht_file env family) ex]
      | Inr x \<Rightarrow> [])"

text \<open>The binding of lines 113-135 as a function of the port found in \<open>BtRegistry\<close>:
  the candidates, the first of them the system lets bind, the ports tried, whether the
  bind succeeds, and the port bound.\<close>

definition listen_addr :: "env \<Rightarrow> int \<Rightarrow> string" where
  "listen_addr env family =
     opt_get env (if family = AF_INET then PREF_DHT_LISTEN_ADDR else PREF_DHT_LISTEN_ADDR6)"

definition candidates :: "env \<Rightarrow> uint16_t list" where
  "candidates env = map word_of_int (opt_segments env PREF_DHT_LISTEN_PORT)"

definition first_free :: "env \<Rightarrow> int \<Rightarrow> uint16_t option" where
  "first_free env family = find (port_free env family (listen_addr env family)) (candidates env)"

definition attempts :: "env \<Rightarrow> int \<Rightarrow> uint16_t \<Rightarrow> uint16_t list" where
  "attempts env family port =
     (if port \<noteq> 0 then [port]
      else takeWhile (\<lambda>p. \<not> port_free env family (listen_addr env family) p) (candidates env) @
           (case first_free env family of None \<Rightarrow> [] | Some p \<Rightarrow> [p]))"

definition binds :: "env \<Rightarrow> int \<Rightarrow> uint16_t \<Rightarrow> bool" where
  "binds env family port =
     (if port \<noteq> 0 then port_free env family (listen_addr env family) port
      else first_free env family \<noteq> None)"

definition bound_port :: "env \<Rightarrow> int \<Rightarrow> uint16_t \<Rightarrow> uint16_t" where
  "bound_port env family port =
     (if port \<noteq> 0 then port
      else case first_free env family of None \<Rightarrow> 0 | Some p \<Rightarrow> p)"

text \<open>The steps a call reaches after a successful bind when none of them raises, in
  the order of the source.\<close>

definition entry_point_host :: "env \<Rightarrow> int \<Rightarrow> string" where
  "entry_point_host env family =
     opt_get env (if family = AF_INET then PREF_DHT_ENTRY_POINT_HOST
                  else PREF_DHT_ENTRY_POINT_HOST6)"

definition steps :: "env \<Rightarrow> int \<Rightarrow> step list" where
  "steps env family =
     [New_services, Wiring, New_UDPTrackerClient] @
     map AddNode [0..<length (recovered_nodes env family)] @
     (if recovered_nodes env family \<noteq> [] then [CreateBucketRefreshTask] else []) @
     (if entry_point_host env family \<noteq> [] then [New_command EntryPointNameResolve] else []) @
     map New_command [Interaction, TokenUpdate, BucketRefresh, PeerAnnounce, AutoSave]"

text \<open>
  The exception that ends the \<open>try\<close> block, if any: that of line 134 when the bind
  fails, and otherwise what the first of the steps at which a collaborator raises,
  raises.
\<close>

fun first_raised :: "(step \<Rightarrow> thrown option) \<Rightarrow> step list \<Rightarrow> thrown option" where
  "first_raised f [] = None"
| "first_raised f (s # ss) = (case f s of None \<Rightarrow> first_raised f ss | Some t \<Rightarrow> Some t)"

definition failure :: "env \<Rightarrow> int \<Rightarrow> uint16_t \<Rightarrow> thrown option" where
  "failure env family port =
     (if binds env family port then first_raised (raises env) (steps env family)
      else Some (Recoverable (DlAbortEx ''Error occurred while binding UDP port for DHT'')))"

text \<open>
  The order of section 6 of the specification, in its words: between five and seven
  tasks, "the five fixed tasks first, then the conditional ones".
\<close>

definition claimed_order :: "command_kind list \<Rightarrow> bool" where
  "claimed_order ks \<longleftrightarrow>
     5 \<le> length ks \<and> length ks \<le> 7 \<and>
     take 5 ks = [Interaction, TokenUpdate, BucketRefresh, PeerAnnounce, AutoSave]"

text \<open>
  The specification's sentence on the second family, in its words: "for the IPv6 family
  no auxiliary tracker-client handle is constructed": no returned command holds one, and
  no object allocated by the call is one.
\<close>

definition claimed_no_tracker_client ::
  "world \<Rightarrow> (thrown + command list) \<times> world \<Rightarrow> bool" where
  "claimed_no_tracker_client w res \<longleftrightarrow>
     (case fst res of Inl t \<Rightarrow> True | Inr cmds \<Rightarrow> List.map_filter tracker_client_of cmds = []) \<and>
     (\<forall>r\<in>set [next_ref w..<next_ref (snd res)]. heap (snd res) r \<noteq> Some OUDPTrackerClient)"

section \<open>Inputs of the examples\<close>

text \<open>A process in which nothing is allocated, no family is active and no port is
  negotiated.\<close>

definition w_empty :: world where
  "w_empty = \<lparr>heap = (\<lambda>r. None), next_ref = 0, dht_data = absent, dht_data6 = absent,
     bt_udpPort = 0, bt_udpTrackerClient = None, cuidCounter = 0, bind_trace = [],
     logger = []\<rparr>"

text \<open>A process in which the IPv4 family is active on port 6881: its local node is
  the only object, and a tracker client is registered.\<close>

definition w_active :: world where
  "w_active = \<lparr>heap = (\<lambda>r. if r = 0 then Some (ONode \<lparr>node_id = [9], node_port = 6881\<rparr>)
                           else if r = 1 then Some OUDPTrackerClient else None),
     next_ref = 2,
     dht_data = absent\<lparr>initialized := True, reg_localNode := Some 0\<rparr>,
     dht_data6 = absent, bt_udpPort = 6881, bt_udpTrackerClient = Some 1, cuidCounter = 6,
     bind_trace = [6881], logger = []\<rparr>"

text \<open>A process in which another service has already negotiated port 7000.\<close>

definition w_negotiated :: world where
  "w_negotiated = w_empty\<lparr>bt_udpPort := 7000\<rparr>"

text \<open>
  An environment without faults: the snapshot of either family holds an identity and two
  peers, port 6881 of the candidates 6881, 6882, 6883 is taken, and only the IPv4 family
  has an entry point.
\<close>

definition env_ok :: env where
  "env_ok = \<lparr>
     opt_get = (\<lambda>p. if p = PREF_DHT_ENTRY_POINT_HOST then ''dht.example.org''
                     else if p = PREF_DHT_FILE_PATH then ''dht.dat''
                     else if p = PREF_DHT_FILE_PATH6 then ''dht6.dat'' else []),
     opt_getAsInt = (\<lambda>p. if p = PREF_DHT_MESSAGE_TIMEOUT then 10 else 6881),
     opt_segments = (\<lambda>p. [6881, 6882, 6883]),
     DHT_TOKEN_UPDATE_INTERVAL = 600,
     DHT_BUCKET_REFRESH_CHECK_INTERVAL = 300,
     DHT_PEER_ANNOUNCE_CHECK_INTERVAL = 300,
     snapshot = (\<lambda>family dhtFile. Inr (Some \<lparr>node_id = [1], node_port = 0\<rparr>,
                   [\<lparr>node_id = [2], node_port = 7001\<rparr>, \<lparr>node_id = [3], node_port = 7002\<rparr>])),
     generated_id = [7],
     port_free = (\<lambda>family addr p. p \<noteq> 6881),
     raises = (\<lambda>s. None)\<rparr>"

text \<open>The same environment with a snapshot that cannot be loaded.\<close>

definition env_noload :: env where
  "env_noload = env_ok\<lparr>snapshot := (\<lambda>family dhtFile. Inl (RecoverableException ''no file''))\<rparr>"

text \<open>The same environment in which the construction of the last command raises, after
  the registry has been populated: an exception of class \<open>RecoverableException\<close>, and an
  exception of another class.\<close>

definition env_fault :: env where
  "env_fault = env_ok\<lparr>raises := (\<lambda>s. if s = New_command AutoSave
                                        then Some (Recoverable (RecoverableException ''auto save''))
                                        else None)\<rparr>"

definition env_escape :: env where
  "env_escape = env_ok\<lparr>raises := (\<lambda>s. if s = New_command AutoSave
                                         then Some (OtherException ''std::bad_alloc'')
                                         else None)\<rparr>"

section \<open>Reasoning about programs\<close>

text \<open>The two ways a result continues, as functions of the result.\<close>

fun bind_result ::
  "(thrown + 'a) \<times> world \<Rightarrow> ('a \<Rightarrow> 'b prog) \<Rightarrow> (thrown + 'b) \<times> world" where
  "bind_result (Inl t, w) f = (Inl t, w)"
| "bind_result (Inr x, w) f = f x w"

fun catch_result ::
  "(thrown + 'a) \<times> world \<Rightarrow> (exn \<Rightarrow> 'a prog) \<Rightarrow> (thrown + 'a) \<times> world" where
  "catch_result (Inl (Recoverable ex), w) h = h ex w"
| "catch_result (Inl (OtherException x), w) h = (Inl (OtherException x), w)"
| "catch_result (Inr x, w) h = (Inr x, w)"

text \<open>The \<open>try\<close> block after the bind.\<close>

definition setup_rest ::
  "env \<Rightarrow> int \<Rightarrow> DHTRoutingTableDeserializer \<Rightarrow> ref \<Rightarrow> ref \<Rightarrow> uint16_t \<Rightarrow> command list prog"
  where
  "setup_rest env family deserializer localNode connection port =
     bindp (new_services env family localNode connection) (\<lambda>sv.
     thenp (wire_services env sv) (
     bindp (assign_registry env family sv) (\<lambda>udpTrackerClient.
     thenp (seed_routing_table env sv (des_nodes deserializer)) (
     bindp (entry_point_command env family sv) (\<lambda>tempCommands.
     bindp (fixed_commands env family sv udpTrackerClient tempCommands) (\<lambda>tempCommands.
     thenp (publish family port) (
     ret tempCommands)))))))"

text \<open>
  What a call for one family leaves alone, relative to the state \<open>w0\<close> it started in:
  the objects allocated before, the slot of the other family and, for the IPv6 family,
  the tracker client; the ports tried are \<open>tr\<close> and the log extends \<open>lg\<close>. Until the
  last statement the negotiated port is unchanged too.
\<close>

definition frame :: "world \<Rightarrow> uint16_t list \<Rightarrow> log_entry list \<Rightarrow> int \<Rightarrow> world \<Rightarrow> bool" where
  "frame w0 tr lg family w \<longleftrightarrow>
     next_ref w0 \<le> next_ref w \<and>
     (\<forall>r<next_ref w0. heap w r = heap w0 r) \<and>
     (family = AF_INET \<longrightarrow> dht_data6 w = dht_data6 w0) \<and>
     (family \<noteq> AF_INET \<longrightarrow> dht_data w = dht_data w0 \<and>
        bt_udpTrackerClient w = bt_udpTrackerClient w0) \<and>
     bind_trace w = tr \<and>
     (\<exists>l. logger w = lg @ l)"

definition frame_port ::
  "world \<Rightarrow> uint16_t list \<Rightarrow> log_entry list \<Rightarrow> int \<Rightarrow> world \<Rightarrow> bool" where
  "frame_port w0 tr lg family w \<longleftrightarrow> frame w0 tr lg family w \<and> bt_udpPort w = bt_udpPort w0"

text \<open>
  A program started where \<open>P\<close> holds ends in an exception with \<open>F\<close> where \<open>E\<close> holds,
  or in a value with \<open>R\<close> where \<open>Q\<close> holds.
\<close>

definition hoare ::
  "(world \<Rightarrow> bool) \<Rightarrow> 'a prog \<Rightarrow> (world \<Rightarrow> bool) \<Rightarrow> ('a \<Rightarrow> bool) \<Rightarrow> (world \<Rightarrow> bool) \<Rightarrow>
   (thrown \<Rightarrow> bool) \<Rightarrow> bool"
  where
  "hoare P m Q R E F \<longleftrightarrow>
     (\<forall>w. P w \<longrightarrow> (case m w of (Inl t, w') \<Rightarrow> E w' \<and> F t | (Inr x, w') \<Rightarrow> Q w' \<and> R x))"

definition sv_fresh :: "world \<Rightarrow> services \<Rightarrow> bool" where
  "sv_fresh w0 sv \<longleftrightarrow>
     next_ref w0 \<le> sv_localNode sv \<and> next_ref w0 \<le> sv_connection sv \<and>
     next_ref w0 \<le> sv_routingTable sv \<and> next_ref w0 \<le> sv_factory sv \<and>
     next_ref w0 \<le> sv_tracker sv \<and> next_ref w0 \<le> sv_dispatcher sv \<and>
     next_ref w0 \<le> sv_receiver sv \<and> next_ref w0 \<le> sv_taskQueue sv \<and>
     next_ref w0 \<le> sv_taskFactory sv \<and> next_ref w0 \<le> sv_peerAnnounceStorage sv \<and>
     next_ref w0 \<le> sv_tokenTracker sv"

section \<open>Evaluating a call\<close>

lemma bindp_eval: "bindp m f w = bind_result (m w) f"
  by (simp add: bindp_def split: prod.splits sum.splits)

lemma try_catch_eval: "try_catch m h w = catch_result (m w) h"
  by (simp add: try_catch_def split: prod.splits sum.splits thrown.splits)

lemmas prog_defs = ret_def throw_def bindp_eval thenp_def try_catch_eval modify_def may_raise_def
  write_log_def new_def update_obj_def newCUID_def getID_def mutableData_def mutableData6_def
  getUdpPort_def setUdpPort_def setUDPTrackerClient_def setInitialized_def setInitialized6_def
  clearData_def clearData6_def addNode_def createBucketRefreshTask_def setForceRefresh_def
  addPeriodicTask1_def

lemmas phase_defs = new_services_def wire_services_def assign_registry_def
  seed_routing_table_def entry_point_command_def interaction_command_def
  token_update_command_def bucket_refresh_command_def peer_announce_command_def
  auto_save_command_def fixed_commands_def publish_def

lemma load_local_node_eval:
  "load_local_node env family w =
     (Inr (\<lparr>des_localNode = map_option (\<lambda>_. next_ref w) (recovered_identity env family),
            des_nodes = recovered_nodes env family\<rparr>, next_ref w),
      w\<lparr>heap := (heap w)(next_ref w \<mapsto> ONode (local_identity env family)),
        next_ref := Suc (next_ref w),
        logger := logger w @ load_log env family\<rparr>)"
  by (simp add: load_local_node_def deserialize_def prog_defs Let_def dht_file_def
      recovered_identity_def recovered_nodes_def local_identity_def load_log_def
      split: sum.splits option.splits prod.splits)

lemma find_None_takeWhile: "find P xs = None \<Longrightarrow> takeWhile (\<lambda>x. \<not> P x) xs = xs"
  by (induction xs) (auto split: if_splits)

lemma connection_bind_sgl_eval:
  "heap w c = Some (OConnection cc) \<Longrightarrow>
   connection_bind_sgl env c port addr sgl w =
     (case find (port_free env (conn_family cc) addr) (map word_of_int sgl) of
        None \<Rightarrow> (Inr (False, last (port # map word_of_int sgl)),
                 w\<lparr>bind_trace := bind_trace w @ map word_of_int sgl\<rparr>)
      | Some p \<Rightarrow> (Inr (True, p),
                 w\<lparr>heap := (heap w)(c \<mapsto> OConnection (cc\<lparr>conn_socket := Some p\<rparr>)),
                   bind_trace := bind_trace w @
                     takeWhile (\<lambda>q. \<not> port_free env (conn_family cc) addr q)
                       (map word_of_int sgl) @ [p]\<rparr>))"
proof (induction sgl arbitrary: w port)
  case Nil
  then show ?case by (simp add: ret_def)
next
  case (Cons p sgl)
  show ?case
  proof (cases "port_free env (conn_family cc) addr (word_of_int p)")
    case True
    then show ?thesis
      by (simp add: bindp_eval connection_bind_def ret_def Cons.prems)
  next
    case False
    let ?w1 = "w\<lparr>bind_trace := bind_trace w @ [word_of_int p]\<rparr>"
    have h: "heap ?w1 c = Some (OConnection cc)" using Cons.prems by simp
    have "connection_bind_sgl env c port addr (p # sgl) w =
          connection_bind_sgl env c (word_of_int p) addr sgl ?w1"
      by (simp add: bindp_eval connection_bind_def False Cons.prems)
    also note Cons.IH [OF h, of "word_of_int p"]
    finally show ?thesis
      by (simp add: False fun_eq_iff split: option.splits)
  qed
qed

lemma bind_port_eval:
  assumes "heap w ln = Some (ONode n)" and "ln \<noteq> next_ref w"
  shows "bind_port env family ln w =
     (if binds env family (bt_udpPort w)
      then (Inr (next_ref w, bound_port env family (bt_udpPort w)),
            w\<lparr>heap := (heap w)(next_ref w \<mapsto> OConnection \<lparr>conn_family = family,
                        conn_socket = Some (bound_port env family (bt_udpPort w))\<rparr>,
                      ln \<mapsto> ONode (n\<lparr>node_port := bound_port env family (bt_udpPort w)\<rparr>)),
              next_ref := Suc (next_ref w),
              bind_trace := bind_trace w @ attempts env family (bt_udpPort w)\<rparr>)
      else (Inl (Recoverable (DlAbortEx ''Error occurred while binding UDP port for DHT'')),
            w\<lparr>heap := (heap w)(next_ref w \<mapsto> OConnection \<lparr>conn_family = family,
                        conn_socket = None\<rparr>),
              next_ref := Suc (next_ref w),
              bind_trace := bind_trace w @ attempts env family (bt_udpPort w)\<rparr>))"
proof (cases "bt_udpPort w = 0")
  case True
  show ?thesis
  proof (cases "first_free env family")
    case None
    then show ?thesis using True assms
      by (simp add: bind_port_def prog_defs connection_bind_sgl_eval binds_def bound_port_def
          attempts_def first_free_def candidates_def listen_addr_def [symmetric] Let_def
          find_None_takeWhile)
  next
    case (Some p)
    then show ?thesis using True assms
      by (simp add: bind_port_def prog_defs connection_bind_sgl_eval binds_def bound_port_def
          attempts_def first_free_def candidates_def listen_addr_def [symmetric] Let_def)
  qed
next
  case False
  then show ?thesis using assms
    by (simp add: bind_port_def prog_defs connection_bind_def binds_def bound_port_def
        attempts_def listen_addr_def [symmetric] Let_def)
qed

lemma add_nodes_eval:
  "heap w rt = Some (ORoutingTable t) \<Longrightarrow>
   (\<forall>j<length ns. raises env (AddNode (i + j)) = None) \<Longrightarrow>
   add_nodes env rt i ns w =
     (Inr (), w\<lparr>heap := (heap w)(rt \<mapsto> ORoutingTable (t\<lparr>rt_nodes := rt_nodes t @ ns\<rparr>))\<rparr>)"
proof (induction ns arbitrary: w t i)
  case Nil
  then have "(heap w)(rt \<mapsto> ORoutingTable t) = heap w" by (simp add: map_upd_triv)
  then show ?case by (simp add: ret_def)
next
  case (Cons a ns)
  let ?t1 = "t\<lparr>rt_nodes := rt_nodes t @ [a]\<rparr>"
  let ?w1 = "w\<lparr>heap := (heap w)(rt \<mapsto> ORoutingTable ?t1)\<rparr>"
  have r0: "raises env (AddNode i) = None" using Cons.prems(2) by force
  have h: "heap ?w1 rt = Some (ORoutingTable ?t1)" by simp
  have r: "\<forall>j<length ns. raises env (AddNode (Suc i + j)) = None"
    using Cons.prems(2) by force
  have "add_nodes env rt i (a # ns) w = add_nodes env rt (Suc i) ns ?w1"
    by (simp add: prog_defs r0 Cons.prems(1))
  also note Cons.IH [OF h r]
  finally show ?case by (simp add: fun_eq_iff)
qed

lemma steps_facts:
  assumes "\<forall>s\<in>set (steps env family). raises env s = None"
  shows "raises env New_services = None" "raises env Wiring = None"
    "raises env New_UDPTrackerClient = None"
    "\<forall>j<length (recovered_nodes env family). raises env (AddNode (0 + j)) = None"
    "recovered_nodes env family \<noteq> [] \<Longrightarrow> raises env CreateBucketRefreshTask = None"
    "entry_point_host env family \<noteq> [] \<Longrightarrow>
       raises env (New_command EntryPointNameResolve) = None"
    "raises env (New_command Interaction) = None"
    "raises env (New_command TokenUpdate) = None"
    "raises env (New_command BucketRefresh) = None"
    "raises env (New_command PeerAnnounce) = None"
    "raises env (New_command AutoSave) = None"
  using assms by (auto simp: steps_def)

lemmas eval_simps = setup_try_def load_local_node_eval bind_port_eval phase_defs prog_defs
  add_nodes_eval Let_def entry_point_host_def List.map_filter_simps

text \<open>The result of a call that binds and meets no fault.\<close>

lemma setup_try_success:
  assumes "binds env family (bt_udpPort w)"
    and "\<forall>s\<in>set (steps env family). raises env s = None"
  shows "\<exists>cmds w'. setup_try env family w = (Inr cmds, w') \<and>
    map kind_of cmds =
      (if entry_point_host env family \<noteq> [] then [EntryPointNameResolve] else []) @
      [Interaction, TokenUpdate, BucketRefresh, PeerAnnounce, AutoSave] \<and>
    List.map_filter (transport_of w') cmds =
      [\<lparr>conn_family = family,
        conn_socket = Some (bound_port env family (bt_udpPort w))\<rparr>] \<and>
    List.map_filter tracker_client_of cmds = [next_ref w + 11] \<and>
    (\<forall>c\<in>set cmds. next_ref w + 12 \<notin> set (command_refs c)) \<and>
    slot family w' = \<lparr>initialized = True, reg_localNode = Some (next_ref w),
      reg_routingTable = Some (next_ref w + 2), reg_taskQueue = Some (next_ref w + 7),
      reg_taskFactory = Some (next_ref w + 8),
      reg_peerAnnounceStorage = Some (next_ref w + 9),
      reg_tokenTracker = Some (next_ref w + 10),
      reg_messageDispatcher = Some (next_ref w + 5),
      reg_messageReceiver = Some (next_ref w + 6),
      reg_messageFactory = Some (next_ref w + 3)\<rparr> \<and>
    heap w' (next_ref w) = Some (ONode (local_identity env family
      \<lparr>node_port := bound_port env family (bt_udpPort w)\<rparr>)) \<and>
    heap w' (next_ref w + 2) = Some (ORoutingTable
      \<lparr>rt_localNode = next_ref w, rt_nodes = recovered_nodes env family,
       rt_taskQueue = Some (next_ref w + 7), rt_taskFactory = Some (next_ref w + 8)\<rparr>) \<and>
    heap w' (next_ref w + 7) = Some (OTaskQueue \<lparr>tq_periodicTaskQueue1 =
      (if recovered_nodes env family = [] then [] else [next_ref w + 12])\<rparr>) \<and>
    (recovered_nodes env family \<noteq> [] \<longrightarrow>
       heap w' (next_ref w + 12) = Some (OBucketRefreshTask \<lparr>brt_forceRefresh = True\<rparr>)) \<and>
    heap w' (next_ref w + 11) = Some OUDPTrackerClient \<and>
    bt_udpTrackerClient w' =
      (if family = AF_INET then Some (next_ref w + 11) else bt_udpTrackerClient w) \<and>
    bt_udpPort w' =
      (if bt_udpPort w = 0 then bound_port env family (bt_udpPort w) else bt_udpPort w)"
  using assms(1) steps_facts [OF assms(2)]
  by (cases "family = AF_INET")
     (simp_all add: eval_simps slot_def)

section \<open>What every path of a call preserves\<close>

lemma setup_try_rest:
  "setup_try env family =
     bindp (load_local_node env family) (\<lambda>(deserializer, localNode).
     bindp (bind_port env family localNode) (\<lambda>(connection, port).
     setup_rest env family deserializer localNode connection port))"
  by (simp add: setup_try_def setup_rest_def)

lemma hoareI:
  assumes "\<And>w t w'. P w \<Longrightarrow> m w = (Inl t, w') \<Longrightarrow> E w' \<and> F t"
    and "\<And>w x w'. P w \<Longrightarrow> m w = (Inr x, w') \<Longrightarrow> Q w' \<and> R x"
  shows "hoare P m Q R E F"
  unfolding hoare_def using assms by (auto split: prod.splits sum.splits)

lemma hoareD_Inl: "hoare P m Q R E F \<Longrightarrow> P w \<Longrightarrow> m w = (Inl t, w') \<Longrightarrow> E w' \<and> F t"
  unfolding hoare_def by (erule allE [of _ w]) simp

lemma hoareD_Inr: "hoare P m Q R E F \<Longrightarrow> P w \<Longrightarrow> m w = (Inr x, w') \<Longrightarrow> Q w' \<and> R x"
  unfolding hoare_def by (erule allE [of _ w]) simp

lemma hoare_apply:
  assumes "hoare P m Q R E F" and "P w"
  shows "case m w of (Inl t, w') \<Rightarrow> E w' \<and> F t | (Inr x, w') \<Rightarrow> Q w' \<and> R x"
  using assms unfolding hoare_def by simp

lemma case_result_mono:
  assumes "case p of (Inl t, w') \<Rightarrow> E t w' | (Inr x, w') \<Rightarrow> Q x w'"
    and "\<And>t w'. E t w' \<Longrightarrow> E' t w'"
    and "\<And>x w'. Q x w' \<Longrightarrow> Q' x w'"
  shows "case p of (Inl t, w') \<Rightarrow> E' t w' | (Inr x, w') \<Rightarrow> Q' x w'"
  using assms by (auto split: prod.splits sum.splits)

lemma hoare_ret: "R x \<Longrightarrow> hoare P (ret x) P R E F"
  by (simp add: hoare_def ret_def)

lemma hoare_bindp:
  assumes m: "hoare P m P' R' E F" and f: "\<And>x. R' x \<Longrightarrow> hoare P' (f x) Q R E F"
  shows "hoare P (bindp m f) Q R E F"
proof (rule hoareI)
  fix w ex w'
  assume w: "P w" and r: "bindp m f w = (Inl ex, w')"
  obtain res w1 where mw: "m w = (res, w1)" by (cases "m w")
  show "E w' \<and> F ex"
  proof (cases res)
    case (Inl e)
    with mw r have "m w = (Inl ex, w')" by (simp add: bindp_def)
    then show ?thesis using m w by (rule hoareD_Inl [rotated 2])
  next
    case (Inr x)
    with mw have mx: "m w = (Inr x, w1)" by simp
    from hoareD_Inr [OF m w mx] have p: "P' w1" and x: "R' x" by simp_all
    from mx r have "f x w1 = (Inl ex, w')" by (simp add: bindp_def)
    then show ?thesis using f [OF x] p by (rule hoareD_Inl [rotated 2])
  qed
next
  fix w y w'
  assume w: "P w" and r: "bindp m f w = (Inr y, w')"
  obtain res w1 where mw: "m w = (res, w1)" by (cases "m w")
  show "Q w' \<and> R y"
  proof (cases res)
    case (Inl e)
    with mw r show ?thesis by (simp add: bindp_def)
  next
    case (Inr x)
    with mw have mx: "m w = (Inr x, w1)" by simp
    from hoareD_Inr [OF m w mx] have p: "P' w1" and x: "R' x" by simp_all
    from mx r have "f x w1 = (Inr y, w')" by (simp add: bindp_def)
    then show ?thesis using f [OF x] p by (rule hoareD_Inr [rotated 2])
  qed
qed

lemma hoare_thenp:
  assumes "hoare P m P' R' E F" and "R' () \<Longrightarrow> hoare P' k Q R E F"
  shows "hoare P (thenp m k) Q R E F"
  unfolding thenp_def using assms(1)
proof (rule hoare_bindp)
  fix x :: unit assume "R' x"
  then show "hoare P' k Q R E F" using assms(2) by simp
qed

lemma hoare_weaken:
  assumes "hoare P m Q R' E F" and "\<And>x. R' x \<Longrightarrow> R x"
  shows "hoare P m Q R E F"
proof (rule hoareI)
  fix w ex w' assume "P w" "m w = (Inl ex, w')"
  then show "E w' \<and> F ex" using assms(1) by (rule hoareD_Inl [rotated])
next
  fix w x w' assume "P w" "m w = (Inr x, w')"
  then have "Q w' \<and> R' x" using assms(1) by (rule hoareD_Inr [rotated])
  then show "Q w' \<and> R x" using assms(2) by simp
qed

lemma hoare_if:
  "(c \<Longrightarrow> hoare P a Q R E F) \<Longrightarrow> (\<not> c \<Longrightarrow> hoare P b Q R E F) \<Longrightarrow>
   hoare P (if c then a else b) Q R E F"
  by simp

lemma hoare_seq:
  "(\<And>m. m \<in> set ms \<Longrightarrow> hoare P m P (\<lambda>_. True) E F) \<Longrightarrow>
   hoare P (seq ms) P (\<lambda>_. True) E F"
proof (induction ms)
  case Nil
  show ?case by (simp add: hoare_ret)
next
  case (Cons m ms)
  show ?case
    by (simp, rule hoare_thenp [where P' = P and R' = "\<lambda>_. True"])
       (simp_all add: Cons)
qed

subsection \<open>The primitives\<close>

lemma frame_port_new:
  "hoare (frame_port w0 tr lg family) (new ob) (frame_port w0 tr lg family)
     (\<lambda>r. next_ref w0 \<le> r) E F"
  by (simp add: hoare_def new_def frame_port_def frame_def)

lemma frame_port_update_obj:
  "next_ref w0 \<le> r \<Longrightarrow>
   hoare (frame_port w0 tr lg family) (update_obj r f) (frame_port w0 tr lg family)
     (\<lambda>_. True) E F"
  by (simp add: hoare_def update_obj_def modify_def frame_port_def frame_def
      split: option.splits)

lemma frame_port_may_raise:
  assumes "\<And>t. raises env s = Some t \<Longrightarrow> F t"
  shows "hoare (frame_port w0 tr lg family) (may_raise env s) (frame_port w0 tr lg family)
     (\<lambda>_. raises env s = None) (frame_port w0 tr lg family) F"
  using assms by (simp add: hoare_def may_raise_def ret_def throw_def split: option.splits)

lemma frame_port_write_log:
  "hoare (frame_port w0 tr lg family) (write_log l) (frame_port w0 tr lg family)
     (\<lambda>_. True) E F"
  by (auto simp: hoare_def write_log_def modify_def frame_port_def frame_def)

lemma frame_port_newCUID:
  "hoare (frame_port w0 tr lg family) newCUID (frame_port w0 tr lg family) (\<lambda>_. True) E F"
  by (simp add: hoare_def newCUID_def frame_port_def frame_def)

lemma frame_port_getID:
  "hoare (frame_port w0 tr lg family) (getID r) (frame_port w0 tr lg family) (\<lambda>_. True) E F"
  by (simp add: hoare_def getID_def)

lemma frame_port_mutableData:
  "family = AF_INET \<Longrightarrow>
   hoare (frame_port w0 tr lg family) (mutableData f) (frame_port w0 tr lg family)
     (\<lambda>_. True) E F"
  by (simp add: hoare_def mutableData_def modify_def frame_port_def frame_def)

lemma frame_port_mutableData6:
  "family \<noteq> AF_INET \<Longrightarrow>
   hoare (frame_port w0 tr lg family) (mutableData6 f) (frame_port w0 tr lg family)
     (\<lambda>_. True) E F"
  by (simp add: hoare_def mutableData6_def modify_def frame_port_def frame_def)

lemma frame_port_setUDPTrackerClient:
  "family = AF_INET \<Longrightarrow>
   hoare (frame_port w0 tr lg family) (setUDPTrackerClient c) (frame_port w0 tr lg family)
     (\<lambda>_. True) E F"
  by (simp add: hoare_def setUDPTrackerClient_def modify_def frame_port_def frame_def)

lemmas hoare_steps = hoare_bindp [OF frame_port_new] hoare_bindp [OF frame_port_newCUID]
  hoare_bindp [OF frame_port_getID]
  hoare_thenp [OF frame_port_may_raise] hoare_thenp [OF frame_port_write_log]
  hoare_thenp [OF frame_port_update_obj]

subsection \<open>The first step that raises\<close>

lemma first_raised_append:
  "first_raised f (xs @ ys) =
     (case first_raised f xs of None \<Rightarrow> first_raised f ys | Some t \<Rightarrow> Some t)"
  by (induction xs) (simp_all split: option.splits)

lemma first_raised_None_iff: "first_raised f xs = None \<longleftrightarrow> (\<forall>s\<in>set xs. f s = None)"
  by (induction xs) (auto split: option.splits)

lemma first_raised_AddNode:
  assumes "j < n" and "\<forall>k<j. f (AddNode k) = None" and "f (AddNode j) = Some t"
  shows "first_raised f (map AddNode [0..<n]) = Some t"
proof -
  have "[0..<j + (n - j)] = [0..<j] @ [j..<j + (n - j)]"
    by (rule upt_add_eq_append) simp
  then have "[0..<n] = [0..<j] @ j # [Suc j..<n]"
    using assms(1) by (simp add: upt_conv_Cons)
  moreover have "first_raised f (map AddNode [0..<j]) = None"
    using assms(2) by (simp add: first_raised_None_iff)
  ultimately show ?thesis
    by (simp add: first_raised_append assms(3))
qed

lemma first_raised_AddNode_None:
  "\<forall>j<n. f (AddNode j) = None \<Longrightarrow> first_raised f (map AddNode [0..<n]) = None"
  by (simp add: first_raised_None_iff)

text \<open>The exception of a step is the first of the call when no step before it raises.\<close>

lemma steps_first_raised_services:
  "raises env New_services = Some t \<Longrightarrow>
     first_raised (raises env) (steps env family) = Some t"
  "raises env New_services = None \<Longrightarrow> raises env Wiring = Some t \<Longrightarrow>
     first_raised (raises env) (steps env family) = Some t"
  "raises env New_services = None \<Longrightarrow> raises env Wiring = None \<Longrightarrow>
   raises env New_UDPTrackerClient = Some t \<Longrightarrow>
     first_raised (raises env) (steps env family) = Some t"
  by (simp_all add: steps_def)

lemma steps_first_raised_seed:
  assumes "raises env New_services = None" and "raises env Wiring = None"
    and "raises env New_UDPTrackerClient = None"
  shows "j < length (recovered_nodes env family) \<Longrightarrow>
         \<forall>k<j. raises env (AddNode k) = None \<Longrightarrow> raises env (AddNode j) = Some t \<Longrightarrow>
           first_raised (raises env) (steps env family) = Some t"
    and "recovered_nodes env family \<noteq> [] \<Longrightarrow>
         \<forall>j<length (recovered_nodes env family). raises env (AddNode j) = None \<Longrightarrow>
         raises env CreateBucketRefreshTask = Some t \<Longrightarrow>
           first_raised (raises env) (steps env family) = Some t"
  using assms
  by (simp_all add: steps_def first_raised_append first_raised_AddNode first_raised_AddNode_None)

lemma steps_first_raised_commands:
  assumes "raises env New_services = None" and "raises env Wiring = None"
    and "raises env New_UDPTrackerClient = None"
    and "\<forall>j<length (recovered_nodes env family). raises env (AddNode j) = None"
    and "recovered_nodes env family \<noteq> [] \<longrightarrow> raises env CreateBucketRefreshTask = None"
  shows "entry_point_host env family \<noteq> [] \<Longrightarrow>
         raises env (New_command EntryPointNameResolve) = Some t \<Longrightarrow>
           first_raised (raises env) (steps env family) = Some t"
    and "entry_point_host env family \<noteq> [] \<longrightarrow>
           raises env (New_command EntryPointNameResolve) = None \<Longrightarrow>
         raises env (New_command Interaction) = Some t \<Longrightarrow>
           first_raised (raises env) (steps env family) = Some t"
    and "entry_point_host env family \<noteq> [] \<longrightarrow>
           raises env (New_command EntryPointNameResolve) = None \<Longrightarrow>
         raises env (New_command Interaction) = None \<Longrightarrow>
         raises env (New_command TokenUpdate) = Some t \<Longrightarrow>
           first_raised (raises env) (steps env family) = Some t"
    and "entry_point_host env family \<noteq> [] \<longrightarrow>
           raises env (New_command EntryPointNameResolve) = None \<Longrightarrow>
         raises env (New_command Interaction) = None \<Longrightarrow>
         raises env (New_command TokenUpdate) = None \<Longrightarrow>
         raises env (New_command BucketRefresh) = Some t \<Longrightarrow>
           first_raised (raises env) (steps env family) = Some t"
    and "entry_point_host env family \<noteq> [] \<longrightarrow>
           raises env (New_command EntryPointNameResolve) = None \<Longrightarrow>
         raises env (New_command Interaction) = None \<Longrightarrow>
         raises env (New_command TokenUpdate) = None \<Longrightarrow>
         raises env (New_command BucketRefresh) = None \<Longrightarrow>
         raises env (New_command PeerAnnounce) = Some t \<Longrightarrow>
           first_raised (raises env) (steps env family) = Some t"
    and "entry_point_host env family \<noteq> [] \<longrightarrow>
           raises env (New_command EntryPointNameResolve) = None \<Longrightarrow>
         raises env (New_command Interaction) = None \<Longrightarrow>
         raises env (New_command TokenUpdate) = None \<Longrightarrow>
         raises env (New_command BucketRefresh) = None \<Longrightarrow>
         raises env (New_command PeerAnnounce) = None \<Longrightarrow>
         raises env (New_command AutoSave) = Some t \<Longrightarrow>
           first_raised (raises env) (steps env family) = Some t"
  using assms
  by (simp_all add: steps_def first_raised_append first_raised_AddNode_None)

subsection \<open>The statements of the \<open>try\<close> block after the bind\<close>

lemma new_services_hoare:
  assumes "next_ref w0 \<le> localNode" and "next_ref w0 \<le> connection"
    and "\<And>t. raises env New_services = Some t \<Longrightarrow> F t"
  shows "hoare (frame_port w0 tr lg family) (new_services env family localNode connection)
     (frame_port w0 tr lg family) (\<lambda>sv. sv_fresh w0 sv \<and> raises env New_services = None)
     (frame_port w0 tr lg family) F"
  unfolding new_services_def
  by (intro hoare_steps hoare_ret) (simp_all add: sv_fresh_def assms)

lemma wire_services_hoare:
  assumes "sv_fresh w0 sv" and "\<And>t. raises env Wiring = Some t \<Longrightarrow> F t"
  shows "hoare (frame_port w0 tr lg family) (wire_services env sv)
     (frame_port w0 tr lg family) (\<lambda>_. raises env Wiring = None)
     (frame_port w0 tr lg family) F"
  unfolding wire_services_def Let_def
  apply (rule hoare_thenp [OF frame_port_may_raise [OF assms(2)]])
   apply assumption
  apply (rule hoare_weaken [OF hoare_seq])
  using assms(1)
   apply (auto simp: sv_fresh_def intro!: frame_port_update_obj)
  done

lemma assign_registry_hoare:
  assumes "sv_fresh w0 sv" and "\<And>t. raises env New_UDPTrackerClient = Some t \<Longrightarrow> F t"
  shows "hoare (frame_port w0 tr lg family) (assign_registry env family sv)
     (frame_port w0 tr lg family)
     (\<lambda>udpTrackerClient. next_ref w0 \<le> udpTrackerClient \<and>
        raises env New_UDPTrackerClient = None)
     (frame_port w0 tr lg family) F"
  unfolding assign_registry_def
  apply (rule hoare_thenp [OF frame_port_may_raise [OF assms(2)]])
   apply assumption
  apply (rule hoare_bindp [OF frame_port_new])
  apply (rule hoare_thenp [where P' = "frame_port w0 tr lg family" and R' = "\<lambda>_. True"])
   apply (rule hoare_if)
    apply (rule hoare_seq)
    apply (auto intro!: frame_port_mutableData frame_port_setUDPTrackerClient)[1]
   apply (rule hoare_seq)
   apply (auto intro!: frame_port_mutableData6)[1]
  apply (rule hoare_ret)
  apply simp
  done

lemma add_nodes_hoare:
  assumes "next_ref w0 \<le> rt"
    and "\<And>j t. j < length ns \<Longrightarrow> \<forall>k<j. raises env (AddNode (i + k)) = None \<Longrightarrow>
           raises env (AddNode (i + j)) = Some t \<Longrightarrow> F t"
  shows "hoare (frame_port w0 tr lg family) (add_nodes env rt i ns)
     (frame_port w0 tr lg family) (\<lambda>_. \<forall>j<length ns. raises env (AddNode (i + j)) = None)
     (frame_port w0 tr lg family) F"
  using assms(2)
proof (induction ns arbitrary: i)
  case Nil
  show ?case by (simp add: hoare_ret)
next
  case (Cons a ns)
  have f0: "\<And>t. raises env (AddNode i) = Some t \<Longrightarrow> F t"
    using Cons.prems [of 0] by simp
  have fs: "F t" if "raises env (AddNode i) = None" and "j < length ns"
    and "\<forall>k<j. raises env (AddNode (Suc i + k)) = None"
    and "raises env (AddNode (Suc i + j)) = Some t" for j t
  proof -
    have "\<forall>k<Suc j. raises env (AddNode (i + k)) = None"
      using that(1,3) by (auto simp: less_Suc_eq_0_disj)
    then show ?thesis
      using Cons.prems [of "Suc j" t] that(2,4) by simp
  qed
  have "hoare (frame_port w0 tr lg family) (add_nodes env rt i (a # ns))
     (frame_port w0 tr lg family)
     (\<lambda>_. raises env (AddNode i) = None \<and>
          (\<forall>j<length ns. raises env (AddNode (Suc i + j)) = None))
     (frame_port w0 tr lg family) F"
    unfolding add_nodes.simps addNode_def
    apply (rule hoare_thenp [OF frame_port_may_raise [OF f0]])
     apply assumption
    apply (rule hoare_thenp [OF frame_port_update_obj [OF assms(1)]])
    apply (rule hoare_weaken [OF Cons.IH])
     apply (rule fs, assumption+)
    apply simp
    done
  then show ?case
    by (rule hoare_weaken) (auto simp: less_Suc_eq_0_disj)
qed

lemma seed_routing_table_hoare:
  assumes "sv_fresh w0 sv"
    and an: "\<And>j t. j < length ns \<Longrightarrow> \<forall>k<j. raises env (AddNode k) = None \<Longrightarrow>
           raises env (AddNode j) = Some t \<Longrightarrow> F t"
    and cb: "\<And>t. ns \<noteq> [] \<Longrightarrow> \<forall>j<length ns. raises env (AddNode j) = None \<Longrightarrow>
           raises env CreateBucketRefreshTask = Some t \<Longrightarrow> F t"
  shows "hoare (frame_port w0 tr lg family) (seed_routing_table env sv ns)
     (frame_port w0 tr lg family)
     (\<lambda>_. (\<forall>j<length ns. raises env (AddNode j) = None) \<and>
          (ns \<noteq> [] \<longrightarrow> raises env CreateBucketRefreshTask = None))
     (frame_port w0 tr lg family) F"
proof -
  have rt: "next_ref w0 \<le> sv_routingTable sv" and tq: "next_ref w0 \<le> sv_taskQueue sv"
    using assms(1) by (simp_all add: sv_fresh_def)
  have an0: "\<And>j t. j < length ns \<Longrightarrow> \<forall>k<j. raises env (AddNode (0 + k)) = None \<Longrightarrow>
           raises env (AddNode (0 + j)) = Some t \<Longrightarrow> F t"
    using an by simp
  have cb0: "\<And>t. \<forall>j<length ns. raises env (AddNode (0 + j)) = None \<Longrightarrow> ns \<noteq> [] \<Longrightarrow>
           raises env CreateBucketRefreshTask = Some t \<Longrightarrow> F t"
    using cb by simp
  show ?thesis
    unfolding seed_routing_table_def createBucketRefreshTask_def setForceRefresh_def
      addPeriodicTask1_def
    apply (rule hoare_thenp [OF add_nodes_hoare [OF rt an0]])
       apply assumption+
    apply (rule hoare_if)
     apply (rule hoare_thenp [OF frame_port_may_raise])
      apply (rule cb0, assumption+)
     apply (rule hoare_bindp [OF frame_port_new])
     apply (rule hoare_thenp [OF frame_port_update_obj])
      apply assumption
     apply (rule hoare_weaken [OF frame_port_update_obj [OF tq]])
     apply simp
    apply (rule hoare_ret)
    apply simp
    done
qed

lemma entry_point_command_hoare:
  assumes "\<And>t. entry_point_host env family \<noteq> [] \<Longrightarrow>
     raises env (New_command EntryPointNameResolve) = Some t \<Longrightarrow> F t"
  shows "hoare (frame_port w0 tr lg family) (entry_point_command env family sv)
     (frame_port w0 tr lg family)
     (\<lambda>_. entry_point_host env family \<noteq> [] \<longrightarrow>
            raises env (New_command EntryPointNameResolve) = None)
     (frame_port w0 tr lg family) F"
  unfolding entry_point_command_def Let_def entry_point_host_def [symmetric]
  apply (rule hoare_if)
   apply (rule hoare_bindp [OF frame_port_newCUID])
   apply (rule hoare_thenp [OF frame_port_may_raise])
    apply (rule assms, assumption+)
   apply (rule hoare_ret)
   apply simp
  apply (rule hoare_thenp [OF frame_port_write_log])
  apply (rule hoare_ret)
  apply simp
  done

lemma command_hoare:
  assumes "\<And>t. raises env (New_command k) = Some t \<Longrightarrow> F t"
  shows "hoare (frame_port w0 tr lg family)
     (bindp newCUID (\<lambda>cuid. thenp (may_raise env (New_command k)) (ret (c cuid))))
     (frame_port w0 tr lg family) (\<lambda>_. raises env (New_command k) = None)
     (frame_port w0 tr lg family) F"
  apply (rule hoare_bindp [OF frame_port_newCUID])
  apply (rule hoare_thenp [OF frame_port_may_raise [OF assms]])
   apply assumption
  apply (rule hoare_ret)
  apply simp
  done

lemma fixed_commands_hoare:
  assumes c1: "\<And>t. raises env (New_command Interaction) = Some t \<Longrightarrow> F t"
    and c2: "\<And>t. raises env (New_command Interaction) = None \<Longrightarrow>
       raises env (New_command TokenUpdate) = Some t \<Longrightarrow> F t"
    and c3: "\<And>t. raises env (New_command Interaction) = None \<Longrightarrow>
       raises env (New_command TokenUpdate) = None \<Longrightarrow>
       raises env (New_command BucketRefresh) = Some t \<Longrightarrow> F t"
    and c4: "\<And>t. raises env (New_command Interaction) = None \<Longrightarrow>
       raises env (New_command TokenUpdate) = None \<Longrightarrow>
       raises env (New_command BucketRefresh) = None \<Longrightarrow>
       raises env (New_command PeerAnnounce) = Some t \<Longrightarrow> F t"
    and c5: "\<And>t. raises env (New_command Interaction) = None \<Longrightarrow>
       raises env (New_command TokenUpdate) = None \<Longrightarrow>
       raises env (New_command BucketRefresh) = None \<Longrightarrow>
       raises env (New_command PeerAnnounce) = None \<Longrightarrow>
       raises env (New_command AutoSave) = Some t \<Longrightarrow> F t"
  shows "hoare (frame_port w0 tr lg family)
     (fixed_commands env family sv udpTrackerClient tempCommands)
     (frame_port w0 tr lg family)
     (\<lambda>_. \<forall>k\<in>{Interaction, TokenUpdate, BucketRefresh, PeerAnnounce, AutoSave}.
            raises env (New_command k) = None)
     (frame_port w0 tr lg family) F"
  unfolding fixed_commands_def interaction_command_def token_update_command_def
    bucket_refresh_command_def peer_announce_command_def auto_save_command_def
  apply (rule hoare_bindp [OF command_hoare])
   apply (rule c1, assumption+)
  apply (rule hoare_bindp [OF command_hoare])
   apply (rule c2, assumption+)
  apply (rule hoare_bindp [OF command_hoare])
   apply (rule c3, assumption+)
  apply (rule hoare_bindp [OF command_hoare])
   apply (rule c4, assumption+)
  apply (rule hoare_bindp [OF command_hoare])
   apply (rule c5, assumption+)
  apply (rule hoare_ret)
  apply simp
  done

lemma publish_hoare:
  "hoare (frame_port w0 tr lg family) (publish family port) (frame w0 tr lg family)
     (\<lambda>_. True) E F"
  by (simp add: hoare_def publish_def frame_port_def frame_def prog_defs)

lemma setup_rest_hoare:
  assumes l: "next_ref w0 \<le> localNode" and c: "next_ref w0 \<le> connection"
    and d: "des_nodes deserializer = recovered_nodes env family"
  shows "hoare (frame_port w0 tr lg family)
     (setup_rest env family deserializer localNode connection port)
     (frame w0 tr lg family)
     (\<lambda>_. \<forall>s\<in>set (steps env family). raises env s = None)
     (frame_port w0 tr lg family)
     (\<lambda>t. first_raised (raises env) (steps env family) = Some t)"
  unfolding setup_rest_def d
  apply (rule hoare_bindp [OF new_services_hoare [OF l c]])
   apply (erule steps_first_raised_services(1))
  apply (erule conjE)
  apply (rule hoare_thenp [OF wire_services_hoare])
    apply assumption
   apply (erule (1) steps_first_raised_services(2))
  apply (rule hoare_bindp [OF assign_registry_hoare])
    apply assumption
   apply (erule (2) steps_first_raised_services(3))
  apply (erule conjE)
  apply (rule hoare_thenp [OF seed_routing_table_hoare])
     apply assumption
    apply (rule steps_first_raised_seed(1), assumption+)
   apply (rule steps_first_raised_seed(2), assumption+)
  apply (erule conjE)
  apply (rule hoare_bindp [OF entry_point_command_hoare])
   apply (rule steps_first_raised_commands(1), assumption+)
  apply (rule hoare_bindp [OF fixed_commands_hoare])
       apply (rule steps_first_raised_commands(2), assumption+)
      apply (rule steps_first_raised_commands(3), assumption+)
     apply (rule steps_first_raised_commands(4), assumption+)
    apply (rule steps_first_raised_commands(5), assumption+)
   apply (rule steps_first_raised_commands(6), assumption+)
  apply (rule hoare_thenp [OF publish_hoare])
  apply (rule hoare_ret)
  apply (auto simp: steps_def)
  done

subsection \<open>The \<open>try\<close> block\<close>

lemma setup_try_hoare:
  "case setup_try env family w of
     (Inl t, w') \<Rightarrow>
       frame_port w (bind_trace w @ attempts env family (bt_udpPort w))
         (logger w @ load_log env family) family w' \<and>
       failure env family (bt_udpPort w) = Some t
   | (Inr cmds, w') \<Rightarrow>
       frame w (bind_trace w @ attempts env family (bt_udpPort w))
         (logger w @ load_log env family) family w' \<and>
       binds env family (bt_udpPort w) \<and>
       (\<forall>s\<in>set (steps env family). raises env s = None)"
proof (cases "binds env family (bt_udpPort w)")
  case False
  then show ?thesis
    by (simp add: setup_try_rest load_local_node_eval bind_port_eval bindp_eval
        frame_port_def frame_def failure_def)
next
  case True
  let ?des = "\<lparr>des_localNode = map_option (\<lambda>_. next_ref w) (recovered_identity env family),
               des_nodes = recovered_nodes env family\<rparr>"
  let ?b = "bound_port env family (bt_udpPort w)"
  let ?tr = "bind_trace w @ attempts env family (bt_udpPort w)"
  let ?lg = "logger w @ load_log env family"
  let ?w2 = "w\<lparr>logger := ?lg,
               heap := (heap w)(next_ref w \<mapsto> ONode (local_identity env family\<lparr>node_port := ?b\<rparr>),
                   Suc (next_ref w) \<mapsto> OConnection \<lparr>conn_family = family, conn_socket = Some ?b\<rparr>),
               next_ref := Suc (Suc (next_ref w)),
               bind_trace := ?tr\<rparr>"
  have e: "setup_try env family w =
           setup_rest env family ?des (next_ref w) (Suc (next_ref w)) ?b ?w2"
    using True
    by (simp add: setup_try_rest load_local_node_eval bind_port_eval bindp_eval fun_upd_twist)
  have j: "frame_port w ?tr ?lg family ?w2"
    by (simp add: frame_port_def frame_def)
  have h: "hoare (frame_port w ?tr ?lg family)
     (setup_rest env family ?des (next_ref w) (Suc (next_ref w)) ?b)
     (frame w ?tr ?lg family)
     (\<lambda>_. \<forall>s\<in>set (steps env family). raises env s = None)
     (frame_port w ?tr ?lg family)
     (\<lambda>t. first_raised (raises env) (steps env family) = Some t)"
    by (rule setup_rest_hoare) simp_all
  have k: "case setup_rest env family ?des (next_ref w) (Suc (next_ref w)) ?b ?w2 of
      (Inl t, w') \<Rightarrow> frame_port w ?tr ?lg family w' \<and>
        first_raised (raises env) (steps env family) = Some t
    | (Inr x, w') \<Rightarrow> frame w ?tr ?lg family w' \<and>
        (\<forall>s\<in>set (steps env family). raises env s = None)"
    by (rule hoare_apply [OF h j])
  show ?thesis
    unfolding e by (rule case_result_mono [OF k]) (simp_all add: True failure_def)
qed

section \<open>The four outcomes of a call\<close>

lemma AF_INET_neq: "AF_INET \<noteq> AF_INET6"
  by (simp add: AF_INET_def AF_INET6_def)

lemma not_rejected_family: "\<not> rejected family w \<Longrightarrow> family = AF_INET \<or> family = AF_INET6"
  by (auto simp: rejected_def)

lemma setup_rejected: "rejected family w \<Longrightarrow> DHTSetup_setup env family w = (Inr [], w)"
  by (auto simp: DHTSetup_setup_def rejected_def)

lemma failure_None_iff:
  "failure env family port = None \<longleftrightarrow>
     binds env family port \<and> (\<forall>s\<in>set (steps env family). raises env s = None)"
  by (simp add: failure_def first_raised_None_iff)

text \<open>The \<open>try\<close> block ends in the exception that \<open>failure\<close> names, and in no other.\<close>

lemma setup_try_failure:
  assumes "failure env family (bt_udpPort w) = Some t"
  shows "\<exists>w1. setup_try env family w = (Inl t, w1)"
proof -
  obtain res w1 where r: "setup_try env family w = (res, w1)"
    by (cases "setup_try env family w")
  have "res = Inl t"
  proof (cases res)
    case (Inl t')
    with r setup_try_hoare [where env = env and family = family and w = w] assms
    show ?thesis by simp
  next
    case (Inr cmds)
    with r setup_try_hoare [where env = env and family = family and w = w]
    have "failure env family (bt_udpPort w) = None"
      by (simp add: failure_None_iff)
    with assms show ?thesis by simp
  qed
  with r show ?thesis by simp
qed

lemma setup_try_clean:
  assumes "binds env family (bt_udpPort w)"
    and "\<forall>s\<in>set (steps env family). raises env s = None"
  shows "\<exists>cmds. fst (setup_try env family w) = Inr cmds"
  using setup_try_success [OF assms] by auto

lemma outcome_Succeeded_iff:
  "outcome env family w = Succeeded \<longleftrightarrow>
     \<not> rejected family w \<and> binds env family (bt_udpPort w) \<and>
     (\<forall>s\<in>set (steps env family). raises env s = None)"
proof
  assume s: "outcome env family w = Succeeded"
  then have nr: "\<not> rejected family w"
    by (auto simp: outcome_def split: if_splits)
  obtain res w' where r: "setup_try env family w = (res, w')"
    by (cases "setup_try env family w")
  from s nr r obtain cmds where "res = Inr cmds"
    by (cases res) (simp_all add: outcome_def split: thrown.splits)
  with setup_try_hoare [where env = env and family = family and w = w] r nr
  show "\<not> rejected family w \<and> binds env family (bt_udpPort w) \<and>
     (\<forall>s\<in>set (steps env family). raises env s = None)"
    by simp
next
  assume a: "\<not> rejected family w \<and> binds env family (bt_udpPort w) \<and>
     (\<forall>s\<in>set (steps env family). raises env s = None)"
  then obtain cmds where "fst (setup_try env family w) = Inr cmds"
    using setup_try_clean by blast
  with a show "outcome env family w = Succeeded"
    by (simp add: outcome_def)
qed

lemma setup_Succeeded:
  assumes "outcome env family w = Succeeded"
  shows "DHTSetup_setup env family w = setup_try env family w"
proof -
  from assms have nr: "\<not> rejected family w"
    by (auto simp: outcome_def split: if_splits)
  obtain res w' where r: "setup_try env family w = (res, w')"
    by (cases "setup_try env family w")
  from assms nr r obtain cmds where "res = Inr cmds"
    by (cases res) (simp_all add: outcome_def split: thrown.splits)
  with r nr show ?thesis
    by (auto simp: DHTSetup_setup_def rejected_def)
qed

lemma rollback_eval:
  "snd (rollback family ex w) =
     (if family = AF_INET
      then w\<lparr>logger := logger w @ [A2_LOG_ERROR_EX
               ''Exception caught while initializing DHT functionality. DHT is disabled.'' ex],
             dht_data := absent, bt_udpTrackerClient := None\<rparr>
      else w\<lparr>logger := logger w @ [A2_LOG_ERROR_EX
               ''Exception caught while initializing DHT functionality. DHT is disabled.'' ex],
             dht_data6 := absent\<rparr>)"
  by (simp add: rollback_def prog_defs)

lemma setup_Failed:
  assumes "\<not> rejected family w" and "setup_try env family w = (Inl (Recoverable ex), w1)"
  shows "DHTSetup_setup env family w = (Inr [], snd (rollback family ex w1))"
    and "outcome env family w = Failed ex"
    and "frame_port w (bind_trace w @ attempts env family (bt_udpPort w))
           (logger w @ load_log env family) family w1"
  using assms setup_try_hoare [where env = env and family = family and w = w]
  by (auto simp: DHTSetup_setup_def rejected_def outcome_def)

lemma setup_Escaped:
  assumes "\<not> rejected family w" and "setup_try env family w = (Inl (OtherException x), w1)"
  shows "DHTSetup_setup env family w = (Inl (OtherException x), w1)"
    and "outcome env family w = Escaped x"
    and "frame_port w (bind_trace w @ attempts env family (bt_udpPort w))
           (logger w @ load_log env family) family w1"
  using assms setup_try_hoare [where env = env and family = family and w = w]
  by (auto simp: DHTSetup_setup_def rejected_def outcome_def)

lemma frame_rollback:
  assumes "frame_port w0 tr lg family w1"
  shows "frame w0 tr lg family (snd (rollback family ex w1))"
  using assms by (auto simp: frame_port_def frame_def rollback_eval)

lemma setup_frame:
  assumes "\<not> rejected family w"
  shows "frame w (bind_trace w @ attempts env family (bt_udpPort w))
           (logger w @ load_log env family) family (snd (DHTSetup_setup env family w))"
proof -
  obtain res w1 where r: "setup_try env family w = (res, w1)"
    by (cases "setup_try env family w")
  show ?thesis
  proof (cases res)
    case (Inl t)
    show ?thesis
    proof (cases t)
      case (Recoverable ex)
      with Inl r have t: "setup_try env family w = (Inl (Recoverable ex), w1)" by simp
      show ?thesis
        by (simp add: setup_Failed(1) [OF assms t] frame_rollback [OF setup_Failed(3) [OF assms t]])
    next
      case (OtherException x)
      with Inl r have t: "setup_try env family w = (Inl (OtherException x), w1)" by simp
      show ?thesis
        using setup_Escaped(3) [OF assms t]
        by (simp add: setup_Escaped(1) [OF assms t] frame_port_def)
    qed
  next
    case (Inr cmds)
    with r assms setup_try_hoare [where env = env and family = family and w = w] show ?thesis
      by (auto simp: DHTSetup_setup_def rejected_def)
  qed
qed

text \<open>The state in which the exception of the last step leaves the \<open>try\<close> block: the
  slot and, for the IPv4 family, the tracker client have been assigned.\<close>

lemma steps_facts_before_last:
  assumes "\<forall>s\<in>set (steps env family). s \<noteq> New_command AutoSave \<longrightarrow> raises env s = None"
  shows "raises env New_services = None" "raises env Wiring = None"
    "raises env New_UDPTrackerClient = None"
    "\<forall>j<length (recovered_nodes env family). raises env (AddNode (0 + j)) = None"
    "recovered_nodes env family \<noteq> [] \<Longrightarrow> raises env CreateBucketRefreshTask = None"
    "entry_point_host env family \<noteq> [] \<Longrightarrow>
       raises env (New_command EntryPointNameResolve) = None"
    "raises env (New_command Interaction) = None"
    "raises env (New_command TokenUpdate) = None"
    "raises env (New_command BucketRefresh) = None"
    "raises env (New_command PeerAnnounce) = None"
  using assms by (auto simp: steps_def)

lemma setup_try_last_step_raises:
  assumes "binds env family (bt_udpPort w)"
    and "\<forall>s\<in>set (steps env family). s \<noteq> New_command AutoSave \<longrightarrow> raises env s = None"
    and "raises env (New_command AutoSave) = Some t"
  shows "\<exists>w'. setup_try env family w = (Inl t, w') \<and>
    reg_localNode (slot family w') = Some (next_ref w) \<and>
    reg_routingTable (slot family w') = Some (next_ref w + 2) \<and>
    initialized (slot family w') = initialized (slot family w) \<and>
    bt_udpTrackerClient w' =
      (if family = AF_INET then Some (next_ref w + 11) else bt_udpTrackerClient w) \<and>
    bt_udpPort w' = bt_udpPort w"
  using assms(1,3) steps_facts_before_last [OF assms(2)]
  by (cases "family = AF_INET")
     (simp_all add: eval_simps slot_def)

lemma failure_last_step:
  assumes "binds env family port"
    and "\<forall>s\<in>set (steps env family). s \<noteq> New_command AutoSave \<longrightarrow> raises env s = None"
    and "raises env (New_command AutoSave) = Some t"
  shows "failure env family port = Some t"
  using assms(1,3) steps_facts_before_last [OF assms(2)]
  by (simp add: failure_def steps_def first_raised_append first_raised_AddNode_None)

section \<open>The examples\<close>

lemma env_ok_not_rejected:
  "\<not> rejected AF_INET w_empty" "\<not> rejected AF_INET6 w_empty"
  "\<not> rejected AF_INET6 w_negotiated" "\<not> rejected AF_INET6 w_active"
  by (simp_all add: rejected_def isInitialized_def isInitialized6_def w_empty_def
      w_negotiated_def w_active_def absent_def AF_INET_def AF_INET6_def)

lemma env_ok_first_free:
  "first_free env_ok family = Some 6882" "first_free env_noload family = Some 6882"
  "first_free env_fault family = Some 6882" "first_free env_escape family = Some 6882"
  by (simp_all add: first_free_def candidates_def env_ok_def env_noload_def env_fault_def
      env_escape_def)

lemma env_ok_binds:
  "binds env_ok family 0" "binds env_ok family 7000" "binds env_noload family 0"
  "binds env_fault family 0" "binds env_escape family 0"
  by (simp_all add: binds_def env_ok_first_free) (simp add: env_ok_def)

lemma env_ok_steps:
  "\<forall>s\<in>set (steps env_ok family). raises env_ok s = None"
  "\<forall>s\<in>set (steps env_noload family). raises env_noload s = None"
  by (simp_all add: env_ok_def env_noload_def)

lemma env_fault_steps:
  "\<forall>s\<in>set (steps env_fault family). s \<noteq> New_command AutoSave \<longrightarrow> raises env_fault s = None"
  "raises env_fault (New_command AutoSave) = Some (Recoverable (RecoverableException ''auto save''))"
  "\<forall>s\<in>set (steps env_escape family). s \<noteq> New_command AutoSave \<longrightarrow> raises env_escape s = None"
  "raises env_escape (New_command AutoSave) = Some (OtherException ''std::bad_alloc'')"
  by (simp_all add: env_fault_def env_escape_def)

lemma example_ports:
  "bt_udpPort w_empty = 0" "bt_udpPort w_negotiated = 7000" "bt_udpPort w_active = 6881"
  by (simp_all add: w_empty_def w_negotiated_def w_active_def)

lemma env_ok_succeeds:
  "outcome env_ok AF_INET w_empty = Succeeded"
  "outcome env_ok AF_INET6 w_empty = Succeeded"
  "outcome env_ok AF_INET6 w_negotiated = Succeeded"
  "outcome env_noload AF_INET6 w_empty = Succeeded"
  by (simp_all add: outcome_Succeeded_iff env_ok_not_rejected env_ok_binds env_ok_steps
      example_ports)

lemma env_ok_entry_point:
  "entry_point_host env_ok AF_INET = ''dht.example.org''"
  "entry_point_host env_ok AF_INET6 = []"
  by (simp_all add: entry_point_host_def env_ok_def AF_INET_def AF_INET6_def)

lemma env_ok_recovered:
  "recovered_nodes env_ok family =
     [\<lparr>node_id = [2], node_port = 7001\<rparr>, \<lparr>node_id = [3], node_port = 7002\<rparr>]"
  "recovered_nodes env_noload family = []"
  by (simp_all add: recovered_nodes_def env_ok_def env_noload_def)

section \<open>Facts of a successful call\<close>

lemma success_clean:
  assumes "outcome env family w = Succeeded"
  shows "binds env family (bt_udpPort w)"
    and "\<forall>s\<in>set (steps env family). raises env s = None"
  using assms by (simp_all add: outcome_Succeeded_iff)

text \<open>A successful call makes the family active: a further call for it is rejected.\<close>

lemma success_activates:
  assumes "outcome env family w = Succeeded"
  shows "rejected family (snd (DHTSetup_setup env family w))"
proof -
  from assms have "\<not> rejected family w"
    by (simp add: outcome_Succeeded_iff)
  then have fam: "family = AF_INET \<or> family = AF_INET6"
    by (rule not_rejected_family)
  have "initialized (slot family (snd (DHTSetup_setup env family w)))"
    using setup_try_success [OF success_clean [OF assms]]
    by (auto simp: setup_Succeeded [OF assms])
  with fam AF_INET_neq show ?thesis
    by (auto simp: rejected_def slot_def isInitialized_def isInitialized6_def)
qed

section \<open>The claims\<close>

text \<open>
  C1, as the code has it. When the exception that ends the \<open>try\<close> block is of class
  \<open>RecoverableException\<close> (the bind failed on every port it tried, which raises one, or
  the first exception a collaborator raises at a step after the snapshot was loaded is
  one), the call returns no command, the slot of the family is absent again, the tracker
  client of the IPv4 family is removed and that of the IPv6 family was never touched, the
  negotiated port is unchanged, and the failure is the last entry of the log.
\<close>

theorem setup_recoverable_failure_rolls_back:
  assumes "\<not> rejected family w"
    and "failure env family (bt_udpPort w) = Some (Recoverable ex)"
  shows "case DHTSetup_setup env family w of (res, w') \<Rightarrow>
     res = Inr [] \<and> slot family w' = absent \<and>
     (family = AF_INET \<longrightarrow> bt_udpTrackerClient w' = None) \<and>
     (family = AF_INET6 \<longrightarrow> bt_udpTrackerClient w' = bt_udpTrackerClient w) \<and>
     bt_udpPort w' = bt_udpPort w \<and>
     outcome env family w = Failed ex \<and>
     last (logger w') = A2_LOG_ERROR_EX
       ''Exception caught while initializing DHT functionality. DHT is disabled.'' ex"
proof -
  from setup_try_failure [OF assms(2)]
  obtain w1 where t: "setup_try env family w = (Inl (Recoverable ex), w1)" ..
  note f = setup_Failed [OF assms(1) t]
  from assms(1) have fam: "family = AF_INET \<or> family = AF_INET6"
    by (rule not_rejected_family)
  show ?thesis
    using f(2,3) fam AF_INET_neq
    by (auto simp: f(1) rollback_eval slot_def frame_port_def frame_def)
qed

theorem setup_recoverable_failure_rolls_back_witness:
  "\<not> rejected AF_INET w_empty \<and>
   failure env_fault AF_INET (bt_udpPort w_empty) =
     Some (Recoverable (RecoverableException ''auto save'')) \<and>
   fst (DHTSetup_setup env_fault AF_INET w_empty) = Inr [] \<and>
   dht_data (snd (DHTSetup_setup env_fault AF_INET w_empty)) = absent \<and>
   bt_udpTrackerClient (snd (DHTSetup_setup env_fault AF_INET w_empty)) = None \<and>
   bt_udpPort (snd (DHTSetup_setup env_fault AF_INET w_empty)) = 0 \<and>
   outcome env_fault AF_INET w_empty = Failed (RecoverableException ''auto save'')"
proof -
  have h2: "failure env_fault AF_INET (bt_udpPort w_empty) =
     Some (Recoverable (RecoverableException ''auto save''))"
    by (rule failure_last_step) (simp_all add: example_ports env_ok_binds env_fault_steps)
  show ?thesis
    using h2 setup_recoverable_failure_rolls_back [OF env_ok_not_rejected(1) h2]
    by (simp add: case_prod_unfold slot_def env_ok_not_rejected example_ports)
qed

text \<open>
  C1, as the specification states it, fails: when the construction of the last command
  raises an exception that is not of class \<open>RecoverableException\<close>, the handler of line
  289 does not catch it. The call returns no vector, the exception reaches the caller,
  and the slot and the tracker client assigned at lines 185-206 stay.
\<close>

theorem setup_uncaught_exception_counterexample:
  "\<not> rejected AF_INET w_empty \<and>
   New_command AutoSave \<in> set (steps env_escape AF_INET) \<and>
   raises env_escape (New_command AutoSave) = Some (OtherException ''std::bad_alloc'') \<and>
   failure env_escape AF_INET (bt_udpPort w_empty) = Some (OtherException ''std::bad_alloc'') \<and>
   fst (DHTSetup_setup env_escape AF_INET w_empty) = Inl (OtherException ''std::bad_alloc'') \<and>
   fst (DHTSetup_setup env_escape AF_INET w_empty) \<noteq> Inr [] \<and>
   slot AF_INET (snd (DHTSetup_setup env_escape AF_INET w_empty)) \<noteq> absent \<and>
   reg_localNode (slot AF_INET (snd (DHTSetup_setup env_escape AF_INET w_empty))) = Some 0 \<and>
   bt_udpTrackerClient (snd (DHTSetup_setup env_escape AF_INET w_empty)) = Some 11"
proof -
  have b: "binds env_escape AF_INET (bt_udpPort w_empty)"
    by (simp add: example_ports env_ok_binds)
  have m: "New_command AutoSave \<in> set (steps env_escape AF_INET)"
    by (simp add: steps_def)
  from setup_try_last_step_raises [OF b env_fault_steps(3) env_fault_steps(4)]
  obtain w1 where t: "setup_try env_escape AF_INET w_empty =
        (Inl (OtherException ''std::bad_alloc''), w1)"
    and s: "reg_localNode (slot AF_INET w1) = Some (next_ref w_empty)"
    and c: "bt_udpTrackerClient w1 = Some (next_ref w_empty + 11)"
    by auto
  have n: "next_ref w_empty = 0" by (simp add: w_empty_def)
  from s have a: "slot AF_INET w1 \<noteq> absent"
    by (auto simp: absent_def)
  show ?thesis
    using m a s c n failure_last_step [OF b env_fault_steps(3) env_fault_steps(4)]
    by (simp add: setup_Escaped(1) [OF env_ok_not_rejected(1) t] env_ok_not_rejected
        env_fault_steps)
qed

text \<open>
  C2. A call for a family that is not recognised, or whose slot is initialized, returns
  no command and leaves the whole state as it was; so does a second call.
\<close>

theorem setup_rejected_is_noop:
  assumes "rejected family w"
  shows "DHTSetup_setup env family w = (Inr [], w) \<and>
     DHTSetup_setup env family (snd (DHTSetup_setup env family w)) = (Inr [], w)"
  using assms by (simp add: setup_rejected)

theorem setup_rejected_is_noop_witness:
  "rejected 7 w_empty \<and> rejected AF_INET w_active \<and>
   DHTSetup_setup env_ok 7 w_empty = (Inr [], w_empty) \<and>
   DHTSetup_setup env_ok AF_INET w_active = (Inr [], w_active) \<and>
   DHTSetup_setup env_ok AF_INET (snd (DHTSetup_setup env_ok AF_INET w_active)) =
     (Inr [], w_active)"
proof -
  have h1: "rejected 7 w_empty"
    by (simp add: rejected_def AF_INET_def AF_INET6_def)
  have h2: "rejected AF_INET w_active"
    by (simp add: rejected_def isInitialized_def w_active_def)
  show ?thesis
    using h1 h2 setup_rejected_is_noop [OF h1, of env_ok]
      setup_rejected_is_noop [OF h2, of env_ok]
    by simp
qed

text \<open>
  C3, as the code has it. A successful call returns five or six commands: the entry
  point command first, when an entry point host is configured, and then the
  interaction, token update, bucket refresh, peer announce and auto save commands. The
  forced bucket refresh is a task on the task queue and not a returned command.
\<close>

theorem setup_returns_commands_in_source_order:
  assumes "outcome env family w = Succeeded"
  shows "\<exists>cmds. fst (DHTSetup_setup env family w) = Inr cmds \<and>
     map kind_of cmds =
       (if entry_point_host env family \<noteq> [] then [EntryPointNameResolve] else []) @
       [Interaction, TokenUpdate, BucketRefresh, PeerAnnounce, AutoSave]"
proof -
  note clean = success_clean [OF assms]
  from setup_try_success [OF clean] show ?thesis
    by (auto simp: setup_Succeeded [OF assms])
qed

theorem setup_returns_commands_in_source_order_witness:
  "outcome env_ok AF_INET6 w_empty = Succeeded \<and>
   map_sum id (map kind_of) (fst (DHTSetup_setup env_ok AF_INET6 w_empty)) =
     Inr [Interaction, TokenUpdate, BucketRefresh, PeerAnnounce, AutoSave]"
  using setup_returns_commands_in_source_order [OF env_ok_succeeds(2)]
  by (auto simp: env_ok_succeeds env_ok_entry_point)

text \<open>
  C3, as the specification states it, fails: with an entry point configured the first
  returned command is the entry point command, not the receive and dispatch driver.
\<close>

theorem setup_claimed_order_counterexample:
  "outcome env_ok AF_INET w_empty = Succeeded \<and>
   map_sum id (map kind_of) (fst (DHTSetup_setup env_ok AF_INET w_empty)) =
     Inr [EntryPointNameResolve, Interaction, TokenUpdate, BucketRefresh, PeerAnnounce,
          AutoSave] \<and>
   \<not> claimed_order [EntryPointNameResolve, Interaction, TokenUpdate, BucketRefresh,
        PeerAnnounce, AutoSave]"
  using setup_try_success [OF success_clean [OF env_ok_succeeds(1)]]
  by (auto simp: setup_Succeeded [OF env_ok_succeeds(1)] env_ok_succeeds env_ok_entry_point
      claimed_order_def)

text \<open>
  C4. When the negotiated port is not zero before the call, the only port on which a
  bind is attempted is that port, whatever the outcome; after a successful call the local
  node of the family advertises it and the connection of the interaction command is
  bound to it.
\<close>

theorem setup_reuses_negotiated_port:
  assumes "\<not> rejected family w" and "bt_udpPort w \<noteq> 0"
  shows "case DHTSetup_setup env family w of (res, w') \<Rightarrow>
     bind_trace w' = bind_trace w @ [bt_udpPort w] \<and>
     (outcome env family w = Succeeded \<longrightarrow>
        map_option node_port (local_node_of family w') = Some (bt_udpPort w) \<and>
        (\<exists>cmds. res = Inr cmds \<and>
           List.map_filter (transport_of w') cmds =
             [\<lparr>conn_family = family, conn_socket = Some (bt_udpPort w)\<rparr>]))"
proof -
  have tr: "bind_trace (snd (DHTSetup_setup env family w)) = bind_trace w @ [bt_udpPort w]"
    using setup_frame [OF assms(1), of env] assms(2)
    by (simp add: frame_def attempts_def)
  show ?thesis
  proof (cases "outcome env family w = Succeeded")
    case True
    show ?thesis
      using setup_try_success [OF success_clean [OF True]] tr assms(2)
      by (auto simp: setup_Succeeded [OF True] local_node_of_def bound_port_def)
  next
    case False
    with tr show ?thesis by (simp add: case_prod_unfold)
  qed
qed

theorem setup_reuses_negotiated_port_witness:
  "\<not> rejected AF_INET6 w_negotiated \<and> bt_udpPort w_negotiated \<noteq> 0 \<and>
   outcome env_ok AF_INET6 w_negotiated = Succeeded \<and>
   bind_trace (snd (DHTSetup_setup env_ok AF_INET6 w_negotiated)) = [7000] \<and>
   map_option node_port (local_node_of AF_INET6 (snd (DHTSetup_setup env_ok AF_INET6 w_negotiated)))
     = Some 7000"
proof -
  have h: "bt_udpPort w_negotiated \<noteq> 0"
    by (simp add: w_negotiated_def)
  show ?thesis
    using h setup_reuses_negotiated_port [OF env_ok_not_rejected(3) h, of env_ok]
    by (simp add: case_prod_unfold env_ok_succeeds env_ok_not_rejected)
       (simp add: w_negotiated_def w_empty_def)
qed

text \<open>
  C5. After a successful call the negotiated port is the one found before the call when
  that was not zero; when it was zero, it is the first candidate the system let the
  transport bind, and the connection of the interaction command is bound to it.
\<close>

theorem setup_publishes_bound_port:
  assumes "outcome env family w = Succeeded"
  shows "case DHTSetup_setup env family w of (res, w') \<Rightarrow>
     (bt_udpPort w \<noteq> 0 \<longrightarrow> bt_udpPort w' = bt_udpPort w) \<and>
     (bt_udpPort w = 0 \<longrightarrow>
        first_free env family = Some (bt_udpPort w') \<and>
        (\<exists>cmds. res = Inr cmds \<and>
           List.map_filter (transport_of w') cmds =
             [\<lparr>conn_family = family, conn_socket = Some (bt_udpPort w')\<rparr>]))"
  using setup_try_success [OF success_clean [OF assms]] success_clean(1) [OF assms]
  by (auto simp: setup_Succeeded [OF assms] bound_port_def binds_def)

theorem setup_publishes_bound_port_witness:
  "outcome env_ok AF_INET w_empty = Succeeded \<and> bt_udpPort w_empty = 0 \<and>
   candidates env_ok = [6881, 6882, 6883] \<and>
   \<not> port_free env_ok AF_INET (listen_addr env_ok AF_INET) 6881 \<and>
   bt_udpPort (snd (DHTSetup_setup env_ok AF_INET w_empty)) = 6882"
proof -
  have z: "bt_udpPort w_empty = 0" by (simp add: w_empty_def)
  have c: "candidates env_ok = [6881, 6882, 6883]"
    by (simp add: candidates_def env_ok_def)
  have b: "\<not> port_free env_ok AF_INET (listen_addr env_ok AF_INET) 6881"
    by (simp add: env_ok_def)
  show ?thesis
    using z c b setup_publishes_bound_port [OF env_ok_succeeds(1)]
    by (simp add: case_prod_unfold env_ok_succeeds env_ok_first_free)
qed

text \<open>
  C6. After a successful call the routing table of the family holds every node recovered
  from the snapshot, in order; its task queue holds exactly one task, a bucket refresh
  task with the force flag set, when at least one node was recovered, and no task
  otherwise.
\<close>

theorem setup_seeds_routing_table:
  assumes "outcome env family w = Succeeded"
  shows "case DHTSetup_setup env family w of (res, w') \<Rightarrow>
     map_option rt_nodes (routing_table_of family w') = Some (recovered_nodes env family) \<and>
     scheduled_tasks family w' =
       (if recovered_nodes env family = [] then []
        else [Some (OBucketRefreshTask \<lparr>brt_forceRefresh = True\<rparr>)])"
  using setup_try_success [OF success_clean [OF assms]]
  by (auto simp: setup_Succeeded [OF assms] routing_table_of_def scheduled_tasks_def
      task_queue_of_def)

theorem setup_seeds_routing_table_witness:
  "outcome env_ok AF_INET w_empty = Succeeded \<and>
   outcome env_noload AF_INET6 w_empty = Succeeded \<and>
   map_option rt_nodes (routing_table_of AF_INET (snd (DHTSetup_setup env_ok AF_INET w_empty))) =
     Some [\<lparr>node_id = [2], node_port = 7001\<rparr>, \<lparr>node_id = [3], node_port = 7002\<rparr>] \<and>
   scheduled_tasks AF_INET (snd (DHTSetup_setup env_ok AF_INET w_empty)) =
     [Some (OBucketRefreshTask \<lparr>brt_forceRefresh = True\<rparr>)] \<and>
   scheduled_tasks AF_INET6 (snd (DHTSetup_setup env_noload AF_INET6 w_empty)) = []"
  using setup_seeds_routing_table [OF env_ok_succeeds(1)]
    setup_seeds_routing_table [OF env_ok_succeeds(4)]
  by (simp add: case_prod_unfold env_ok_succeeds env_ok_recovered)

text \<open>
  C7. When the snapshot cannot be loaded, the failure is logged first and the call goes
  on: it succeeds exactly when the bind succeeds and no later step raises, and then the
  local node carries a newly generated identifier, the routing table holds no node and
  no refresh task is queued.
\<close>

theorem setup_survives_load_failure:
  assumes "\<not> rejected family w"
    and "snapshot env family (dht_file env family) = Inl ex"
  shows "case DHTSetup_setup env family w of (res, w') \<Rightarrow>
     (\<exists>l. logger w' = logger w @ [A2_LOG_ERROR_EX
        (''Exception caught while loading DHT routing table from '' @ dht_file env family) ex]
        @ l) \<and>
     recovered_nodes env family = [] \<and>
     (outcome env family w = Succeeded \<longleftrightarrow>
        binds env family (bt_udpPort w) \<and> (\<forall>s\<in>set (steps env family). raises env s = None)) \<and>
     (outcome env family w = Succeeded \<longrightarrow>
        map_option node_id (local_node_of family w') = Some (generated_id env) \<and>
        map_option rt_nodes (routing_table_of family w') = Some [] \<and>
        scheduled_tasks family w' = [])"
proof -
  have lg: "load_log env family = [A2_LOG_ERROR_EX
      (''Exception caught while loading DHT routing table from '' @ dht_file env family) ex]"
    and rn: "recovered_nodes env family = []"
    and li: "local_identity env family = \<lparr>node_id = generated_id env, node_port = 0\<rparr>"
    using assms(2)
    by (simp_all add: load_log_def recovered_nodes_def local_identity_def recovered_identity_def)
  have l: "\<exists>l. logger (snd (DHTSetup_setup env family w)) = logger w @ [A2_LOG_ERROR_EX
        (''Exception caught while loading DHT routing table from '' @ dht_file env family) ex]
        @ l"
    using setup_frame [OF assms(1), of env] by (simp add: frame_def lg)
  have i: "outcome env family w = Succeeded \<longleftrightarrow>
        binds env family (bt_udpPort w) \<and> (\<forall>s\<in>set (steps env family). raises env s = None)"
    using assms(1) by (simp add: outcome_Succeeded_iff)
  show ?thesis
  proof (cases "outcome env family w = Succeeded")
    case True
    show ?thesis
      using setup_try_success [OF success_clean [OF True]] l i rn
      by (auto simp: setup_Succeeded [OF True] local_node_of_def routing_table_of_def
          scheduled_tasks_def task_queue_of_def li)
  next
    case False
    with l i rn show ?thesis by (simp add: case_prod_unfold)
  qed
qed

theorem setup_survives_load_failure_witness:
  "\<not> rejected AF_INET6 w_empty \<and>
   snapshot env_noload AF_INET6 (dht_file env_noload AF_INET6) =
     Inl (RecoverableException ''no file'') \<and>
   outcome env_noload AF_INET6 w_empty = Succeeded \<and>
   map_option node_id (local_node_of AF_INET6 (snd (DHTSetup_setup env_noload AF_INET6 w_empty)))
     = Some [7] \<and>
   map_option rt_nodes (routing_table_of AF_INET6 (snd (DHTSetup_setup env_noload AF_INET6 w_empty)))
     = Some []"
proof -
  have h: "snapshot env_noload AF_INET6 (dht_file env_noload AF_INET6) =
     Inl (RecoverableException ''no file'')"
    by (simp add: env_noload_def)
  have g: "generated_id env_noload = [7]"
    by (simp add: env_noload_def env_ok_def)
  show ?thesis
    using h setup_survives_load_failure [OF env_ok_not_rejected(2) h]
    by (simp add: case_prod_unfold env_ok_succeeds env_ok_not_rejected g)
qed

text \<open>
  C8. Whatever the outcome of a call, the slot of the other family is unchanged, a call
  for the IPv6 family leaves the registered tracker client unchanged, and every object
  allocated before the call is unchanged.
\<close>

theorem setup_leaves_other_family:
  "case DHTSetup_setup env family w of (res, w') \<Rightarrow>
     (family = AF_INET \<longrightarrow> dht_data6 w' = dht_data6 w) \<and>
     (family = AF_INET6 \<longrightarrow> dht_data w' = dht_data w \<and>
        bt_udpTrackerClient w' = bt_udpTrackerClient w) \<and>
     (\<forall>r<next_ref w. heap w' r = heap w r)"
proof (cases "rejected family w")
  case True
  then show ?thesis by (simp add: setup_rejected)
next
  case False
  from setup_frame [OF False, of env] AF_INET_neq show ?thesis
    by (auto simp: frame_def case_prod_unfold)
qed

theorem setup_leaves_other_family_witness:
  "\<not> rejected AF_INET6 w_active \<and> outcome env_fault AF_INET6 w_active \<noteq> Succeeded \<and>
   dht_data (snd (DHTSetup_setup env_fault AF_INET6 w_active)) = dht_data w_active \<and>
   initialized (dht_data (snd (DHTSetup_setup env_fault AF_INET6 w_active))) \<and>
   bt_udpTrackerClient (snd (DHTSetup_setup env_fault AF_INET6 w_active)) = Some 1 \<and>
   heap (snd (DHTSetup_setup env_fault AF_INET6 w_active)) 0 =
     Some (ONode \<lparr>node_id = [9], node_port = 6881\<rparr>)"
proof -
  have f: "\<exists>s\<in>set (steps env_fault AF_INET6). raises env_fault s \<noteq> None"
    by (simp add: steps_def env_fault_def)
  then have n: "outcome env_fault AF_INET6 w_active \<noteq> Succeeded"
    by (auto simp: outcome_Succeeded_iff)
  have a: "AF_INET6 \<noteq> AF_INET" "(0::nat) < next_ref w_active"
    using AF_INET_neq by (simp_all add: w_active_def)
  show ?thesis
    using n a setup_leaves_other_family [where env = env_fault and family = AF_INET6 and w = w_active]
    by (simp add: case_prod_unfold env_ok_not_rejected)
       (simp add: w_active_def)
qed

text \<open>
  C9, as the code has it. A successful call for either family constructs a tracker
  client and hands it to the interaction command; for the IPv4 family it is also stored
  in the registry of the engine, and for the IPv6 family the registered tracker client
  is left as it was.
\<close>

theorem setup_tracker_client_either_family:
  assumes "outcome env family w = Succeeded"
  shows "case DHTSetup_setup env family w of (res, w') \<Rightarrow>
     (\<exists>utc. next_ref w \<le> utc \<and> heap w' utc = Some OUDPTrackerClient \<and>
        (\<exists>cmds. res = Inr cmds \<and> List.map_filter tracker_client_of cmds = [utc]) \<and>
        (family = AF_INET \<longrightarrow> bt_udpTrackerClient w' = Some utc)) \<and>
     (family = AF_INET6 \<longrightarrow> bt_udpTrackerClient w' = bt_udpTrackerClient w)"
proof -
  note clean = success_clean [OF assms]
  from setup_try_success [OF clean] AF_INET_neq show ?thesis
    by (auto simp: setup_Succeeded [OF assms])
qed

theorem setup_tracker_client_either_family_witness:
  "outcome env_ok AF_INET6 w_negotiated = Succeeded \<and>
   bt_udpTrackerClient (snd (DHTSetup_setup env_ok AF_INET6 w_negotiated)) = None \<and>
   map_sum id (length \<circ> List.map_filter tracker_client_of)
     (fst (DHTSetup_setup env_ok AF_INET6 w_negotiated)) = Inr 1"
proof -
  have t: "bt_udpTrackerClient w_negotiated = None"
    by (simp add: w_negotiated_def w_empty_def)
  show ?thesis
    using setup_tracker_client_either_family [OF env_ok_succeeds(3)] t
    by (auto simp: case_prod_unfold env_ok_succeeds)
qed

text \<open>
  C9, as the specification states it, fails: a successful call for the IPv6 family
  constructs a tracker client and the returned interaction command holds it.
\<close>

theorem setup_no_tracker_client_counterexample:
  "outcome env_ok AF_INET6 w_empty = Succeeded \<and>
   \<not> claimed_no_tracker_client w_empty (DHTSetup_setup env_ok AF_INET6 w_empty)"
  using setup_try_success [OF success_clean [OF env_ok_succeeds(2)]]
  by (auto simp: setup_Succeeded [OF env_ok_succeeds(2)] env_ok_succeeds
      claimed_no_tracker_client_def)

text \<open>
  C10. After a successful call that recovered at least one node, the forced bucket
  refresh task is the one task on the first periodic queue of the family's task queue,
  no returned command refers to it, and at most six commands are returned, each of one
  of the six command classes.
\<close>

theorem setup_refresh_task_queued_not_returned:
  assumes "outcome env family w = Succeeded" and "recovered_nodes env family \<noteq> []"
  shows "case DHTSetup_setup env family w of (res, w') \<Rightarrow>
     (\<exists>cmds. res = Inr cmds \<and>
        (\<exists>task. map_option tq_periodicTaskQueue1 (task_queue_of family w') = Some [task] \<and>
           heap w' task = Some (OBucketRefreshTask \<lparr>brt_forceRefresh = True\<rparr>) \<and>
           (\<forall>c\<in>set cmds. task \<notin> set (command_refs c))) \<and>
        length cmds \<le> 6)"
proof -
  from setup_try_success [OF success_clean [OF assms(1)]]
  obtain cmds w' where r: "setup_try env family w = (Inr cmds, w')"
    and k: "map kind_of cmds =
     (if entry_point_host env family \<noteq> [] then [EntryPointNameResolve] else []) @
     [Interaction, TokenUpdate, BucketRefresh, PeerAnnounce, AutoSave]"
    by auto
  from k have "length (map kind_of cmds) \<le> 6"
    by (simp del: length_map)
  then have len: "length cmds \<le> 6" by simp
  show ?thesis
    using setup_try_success [OF success_clean [OF assms(1)]] assms(2) len r
    by (auto simp: setup_Succeeded [OF assms(1)] task_queue_of_def)
qed

theorem setup_refresh_task_queued_not_returned_witness:
  "outcome env_ok AF_INET w_empty = Succeeded \<and> recovered_nodes env_ok AF_INET \<noteq> [] \<and>
   (\<exists>cmds. fst (DHTSetup_setup env_ok AF_INET w_empty) = Inr cmds \<and> length cmds \<le> 6) \<and>
   map_option (length \<circ> tq_periodicTaskQueue1)
     (task_queue_of AF_INET (snd (DHTSetup_setup env_ok AF_INET w_empty))) = Some 1"
proof -
  have h: "recovered_nodes env_ok AF_INET \<noteq> []"
    by (simp add: env_ok_recovered)
  show ?thesis
    using h setup_refresh_task_queued_not_returned [OF env_ok_succeeds(1) h]
    by (auto simp: case_prod_unfold env_ok_succeeds)
qed

end
